theory Spec2Isabelle
  imports Complex_Main "HOL-Library.AList" "HOL-Library.Multiset"
begin

section \<open>Provider geocoding cache and reconciliation (services/providersService.ts)\<close>

text \<open>
  A shallow embedding of \<^verbatim>\<open>GeocodingService\<close> and \<^verbatim>\<open>ProvidersService\<close>.
  Conventions of the embedding:
  \<^item> a JavaScript string is a list of 8-bit characters read as Latin-1 code points
    (the French text of the directory fits Latin-1);
  \<^item> an instant (\<^verbatim>\<open>Date.now()\<close>, an ISO date string) is an \<open>int\<close> of milliseconds; every
    operation takes the reading \<open>now\<close> of the clock as a parameter;
  \<^item> an optional or nullable field is an \<open>option\<close>;
  \<^item> AsyncStorage and the static fields of \<^verbatim>\<open>GeocodingService\<close> are fields of one
    \<open>State\<close> record that every operation takes and returns; a stored item that is
    missing, unreadable or does not parse is \<open>None\<close>, and writes succeed;
  \<^item> the two remote services are parameters: the reply of the directory endpoint, and
    a function giving the reply of the geocoding endpoint to its n-th request.
\<close>

subsection \<open>Data model\<close>

record ProviderEmail =
  email :: string

record ProviderPhone =
  phone :: string
  whatsapp :: "string option"

datatype GeocodingSource = Api | Manual | Fallback

datatype Accuracy = Exact | Approximate | City_level

text \<open>
  \<open>latitude\<close> and \<open>longitude\<close> are \<open>None\<close> when the JavaScript value is not a finite
  number (\<^verbatim>\<open>undefined\<close>, or the \<^verbatim>\<open>NaN\<close> that \<^verbatim>\<open>parseFloat\<close> gives on text that is not a number).
\<close>

record ProviderCoordinates =
  latitude :: "real option"
  longitude :: "real option"
  geocoded_at :: int
  geocoding_source :: GeocodingSource
  accuracy :: "Accuracy option"

datatype Sector = Prive | Public

text \<open>
  \<open>ApiProvider\<close> is \<^verbatim>\<open>Omit<Provider, 'coordinates' | 'distance_from_user' | 'last_updated'>\<close>,
  a record of the directory as the remote service sends it; \<open>Provider\<close> adds the three
  fields of the service. The fields \<^verbatim>\<open>id\<close> and \<^verbatim>\<open>note\<close> are \<open>id_prov\<close> and \<open>note_prov\<close> here.
\<close>

record ApiProvider =
  id_prov :: int
  title :: string
  provider_type :: string
  emails :: "ProviderEmail list"
  phones :: "ProviderPhone list"
  code :: string
  address :: string
  external_code :: string
  city :: string
  country :: "string option"
  county :: "string option"
  note_prov :: string
  sector :: Sector
  agreeged :: bool

record Provider = ApiProvider +
  coordinates :: "ProviderCoordinates option"
  distance_from_user :: "real option"
  last_updated :: "int option"

record GeocodingMetadata =
  total_providers :: nat
  geocoded_providers :: nat
  last_full_geocoding :: int
  version :: string

text \<open>
  The state. The first five fields are the AsyncStorage items under
  \<^verbatim>\<open>STORAGE_KEYS.providers\<close>, \<^verbatim>\<open>providers_with_coordinates\<close>, \<^verbatim>\<open>geocoding_cache\<close>,
  \<^verbatim>\<open>geocoding_metadata\<close> and \<^verbatim>\<open>last_sync\<close> (of the two snapshot items only the
  \<^verbatim>\<open>providers\<close> array is ever read back, so only it is kept). \<open>cache\<close> and \<open>isInitialized\<close>
  are the static fields of \<^verbatim>\<open>GeocodingService\<close>; the \<^verbatim>\<open>Map\<close> is an association list in
  insertion order. The last two fields count the requests sent to the geocoding endpoint
  and to the directory endpoint.
\<close>

record State =
  providers_cache :: "Provider list option"
  providers_with_coordinates :: "Provider list option"
  geocoding_cache :: "(string \<times> ProviderCoordinates) list option"
  geocoding_metadata :: "GeocodingMetadata option"
  last_sync :: "int option"
  cache :: "(string \<times> ProviderCoordinates) list"
  isInitialized :: bool
  geocodingRequests :: nat
  apiRequests :: nat

text \<open>
  The reply of the geocoding endpoint: \<^verbatim>\<open>fetch\<close> rejects, the status is not 2xx, the body
  is not JSON, or the body parses; then \<open>Results\<close> holds, for each element of the array,
  \<^verbatim>\<open>parseFloat\<close> of its \<^verbatim>\<open>lat\<close> and \<^verbatim>\<open>lon\<close> (a JSON value with no positive \<^verbatim>\<open>length\<close> is
  \<open>Results []\<close>).
\<close>

datatype NominatimReply =
  NetworkError
| HttpError nat
| MalformedPayload
| Results "(real option \<times> real option) list"

text \<open>
  The reply of the directory endpoint: \<open>DirectoryError msg\<close> is every path that throws
  in \<^verbatim>\<open>fetchProvidersFromAPI\<close> (\<^verbatim>\<open>fetch\<close> rejects, status not 2xx, body not JSON,
  \<^verbatim>\<open>success\<close> false or \<^verbatim>\<open>data\<close> not an array), with the message of the error;
  \<open>DirectoryData\<close> is the \<^verbatim>\<open>data\<close> array of a valid envelope.
\<close>

datatype DirectoryReply =
  DirectoryError string
| DirectoryData "ApiProvider list"

text \<open>The four texts the service puts in \<^verbatim>\<open>message\<close>.\<close>

datatype Message =
  FromCacheWithCoordinates
| Processed nat
| ApiUnreachableFullCache
| ApiUnreachableCache

record ApiResponse =
  success :: bool
  data :: "Provider list"
  message :: "Message option"
  error :: "string option"

subsection \<open>Configuration\<close>

definition coordinatesCacheTimeout :: int where
  "coordinatesCacheTimeout = 90 * 24 * 60 * 60 * 1000"

subsection \<open>String primitives of JavaScript, on Latin-1\<close>

text \<open>
  White space and line terminators below U+0100: tab, line feed, vertical tab, form
  feed, carriage return, space and no-break space. \<^verbatim>\<open>trim\<close> and \<^verbatim>\<open>\s\<close> use the same set.
\<close>

definition isSpace :: "char \<Rightarrow> bool" where
  "isSpace c = (of_char c \<in> {9, 10, 11, 12, 13, 32, 160 :: nat})"

text \<open>Upper-case letters below U+0100: A to Z, and U+00C0 to U+00DE without U+00D7.\<close>

definition isUpper :: "char \<Rightarrow> bool" where
  "isUpper c =
     (let n = of_char c :: nat
      in (65 \<le> n \<and> n \<le> 90) \<or> (192 \<le> n \<and> n \<le> 222 \<and> n \<noteq> 215))"

text \<open>Their lower-case letter is 32 code points higher: bit 5 is set.\<close>

fun setBit5 :: "char \<Rightarrow> char" where
  "setBit5 (Char b0 b1 b2 b3 b4 b5 b6 b7) = Char b0 b1 b2 b3 b4 True b6 b7"

definition lowerChar :: "char \<Rightarrow> char" where
  "lowerChar c = (if isUpper c then setBit5 c else c)"

definition toLowerCase :: "string \<Rightarrow> string" where
  "toLowerCase s = map lowerChar s"

definition trim :: "string \<Rightarrow> string" where
  "trim s = rev (dropWhile isSpace (rev (dropWhile isSpace s)))"

text \<open>\<^verbatim>\<open>s.replace(/\s+/g, ' ')\<close>: every maximal run of white space becomes one space.\<close>

fun collapseSpaces :: "string \<Rightarrow> string" where
  "collapseSpaces [] = []"
| "collapseSpaces [c] = (if isSpace c then '' '' else [c])"
| "collapseSpaces (c # d # cs) =
     (if isSpace c \<and> isSpace d then collapseSpaces (d # cs)
      else (if isSpace c then CHR '' '' else c) # collapseSpaces (d # cs))"

subsection \<open>GeocodingService\<close>

definition loadCache :: "State \<Rightarrow> State" where
  "loadCache s =
     (case geocoding_cache s of
        None \<Rightarrow> s
      | Some parsed \<Rightarrow> s\<lparr>cache := parsed\<rparr>)"

definition initialize :: "State \<Rightarrow> State" where
  "initialize s = (if isInitialized s then s else (loadCache s)\<lparr>isInitialized := True\<rparr>)"

definition saveCache :: "State \<Rightarrow> State" where
  "saveCache s = s\<lparr>geocoding_cache := Some (cache s)\<rparr>"

definition createCacheKey :: "string \<Rightarrow> string \<Rightarrow> string" where
  "createCacheKey addr cty =
     (let cleanAddress = collapseSpaces (trim (toLowerCase addr));
          cleanCity = trim (toLowerCase cty)
      in cleanAddress @ ''_'' @ cleanCity)"

definition isCacheValid :: "int \<Rightarrow> ProviderCoordinates \<Rightarrow> bool" where
  "isCacheValid now coords =
     (let cacheAge = now - geocoded_at coords
      in cacheAge < coordinatesCacheTimeout)"

text \<open>The object literal \<^verbatim>\<open>cityCoordinates\<close> of \<^verbatim>\<open>getFallbackCoordinates\<close>: its own properties.\<close>

definition cityCoordinates :: "(string \<times> real \<times> real) list" where
  "cityCoordinates =
     [(''cotonou'', 6.3654, 2.4183),
      (''porto-novo'', 6.4969, 2.6283),
      (''parakou'', 9.3372, 2.6303),
      (''djougou'', 9.7086, 1.6706),
      (''bohicon'', 7.1781, 2.0672),
      (''kandi'', 11.1342, 2.9387),
      (''ouidah'', 6.3617, 2.0852),
      (''abomey'', 7.1826, 1.9912),
      (''abomey-calavi'', 6.4421, 2.3569),
      (''lokossa'', 6.6389, 1.7167),
      (''natitingou'', 10.3167, 1.3833),
      (''savalou'', 7.9286, 1.9753),
      (''pob'' @ [CHR 0xE8], 6.9833, 2.6667),
      (''tchaourou'', 8.8833, 2.6000)]"

text \<open>
  The object literal inherits the properties of \<^verbatim>\<open>Object.prototype\<close>, and
  \<^verbatim>\<open>cityCoordinates[normalizedCity]\<close> reads inherited properties too. Each of these is a
  function or an object: truthy, with no \<^verbatim>\<open>lat\<close> and no \<^verbatim>\<open>lng\<close>.
\<close>

definition objectPrototypeKeys :: "string list" where
  "objectPrototypeKeys =
     [''constructor'', ''__proto__'', ''hasOwnProperty'', ''isPrototypeOf'',
      ''propertyIsEnumerable'', ''toLocaleString'', ''toString'', ''valueOf'',
      ''__defineGetter__'', ''__defineSetter__'', ''__lookupGetter__'',
      ''__lookupSetter__'']"

text \<open>
  \<^verbatim>\<open>cityCoordinates[key]\<close>: \<open>None\<close> is \<^verbatim>\<open>undefined\<close>; otherwise the \<^verbatim>\<open>lat\<close> and \<^verbatim>\<open>lng\<close> of
  the value read.
\<close>

definition cityLookup :: "string \<Rightarrow> (real option \<times> real option) option" where
  "cityLookup key =
     (case map_of cityCoordinates key of
        Some (lat, lng) \<Rightarrow> Some (Some lat, Some lng)
      | None \<Rightarrow> if key \<in> set objectPrototypeKeys then Some (None, None) else None)"

definition getFallbackCoordinates ::
  "int \<Rightarrow> string \<Rightarrow> State \<Rightarrow> ProviderCoordinates option \<times> State" where
  "getFallbackCoordinates now cty s =
     (let normalizedCity = trim (toLowerCase cty)
      in case cityLookup normalizedCity of
           Some coords \<Rightarrow>
             (let fallbackCoords =
                    \<lparr>latitude = fst coords, longitude = snd coords, geocoded_at = now,
                     geocoding_source = Fallback, accuracy = Some City_level\<rparr>;
                  cacheKey = createCacheKey '''' cty
              in (Some fallbackCoords,
                  saveCache (s\<lparr>cache := AList.update cacheKey fallbackCoords (cache s)\<rparr>)))
         | None \<Rightarrow> (None, s))"

text \<open>
  The part of \<^verbatim>\<open>geocodeAddress\<close> after the cache check: the request to the geocoding
  endpoint, whose reply is \<open>nominatim n query\<close> for the n-th request, then the static
  table. The \<^verbatim>\<open>catch\<close> block and the empty-result branch both end in
  \<^verbatim>\<open>getFallbackCoordinates\<close>.
\<close>

definition geocodeRequest ::
  "(nat \<Rightarrow> string \<Rightarrow> NominatimReply) \<Rightarrow> int \<Rightarrow> string \<Rightarrow> string \<Rightarrow> string \<Rightarrow> string \<Rightarrow>
   State \<Rightarrow> ProviderCoordinates option \<times> State" where
  "geocodeRequest nominatim now addr cty cntry cacheKey s =
     (let query = (if trim addr \<noteq> [] then addr @ '', '' @ cty @ '', '' @ cntry
                   else cty @ '', '' @ cntry);
          s' = s\<lparr>geocodingRequests := Suc (geocodingRequests s)\<rparr>
      in case nominatim (geocodingRequests s) query of
           Results (result # rest) \<Rightarrow>
             (let coords =
                    \<lparr>latitude = fst result, longitude = snd result, geocoded_at = now,
                     geocoding_source = Api,
                     accuracy = Some (if trim addr \<noteq> [] then Approximate else City_level)\<rparr>
              in (Some coords,
                  saveCache (s'\<lparr>cache := AList.update cacheKey coords (cache s')\<rparr>)))
         | _ \<Rightarrow> getFallbackCoordinates now cty s')"

definition geocodeAddress ::
  "(nat \<Rightarrow> string \<Rightarrow> NominatimReply) \<Rightarrow> int \<Rightarrow> string \<Rightarrow> string \<Rightarrow> string \<Rightarrow>
   State \<Rightarrow> ProviderCoordinates option \<times> State" where
  "geocodeAddress nominatim now addr cty cntry s =
     (let s1 = initialize s;
          cacheKey = createCacheKey addr cty
      in case map_of (cache s1) cacheKey of
           Some cached \<Rightarrow>
             if isCacheValid now cached then (Some cached, s1)
             else geocodeRequest nominatim now addr cty cntry cacheKey
                    (s1\<lparr>cache := AList.delete cacheKey (cache s1)\<rparr>)
         | None \<Rightarrow> geocodeRequest nominatim now addr cty cntry cacheKey s1)"

text \<open>The default value of the parameter \<^verbatim>\<open>country\<close>.\<close>

definition defaultCountry :: string where
  "defaultCountry = ''B'' @ [CHR 0xE9] @ ''nin''"

definition cleanExpiredCache :: "int \<Rightarrow> State \<Rightarrow> State" where
  "cleanExpiredCache now s =
     (let s1 = initialize s;
          expired = (\<lambda>(key, coords). now - geocoded_at coords > coordinatesCacheTimeout);
          removedCount = length (filter expired (cache s1));
          s2 = s1\<lparr>cache := filter (\<lambda>e. \<not> expired e) (cache s1)\<rparr>
      in if removedCount > 0 then saveCache s2 else s2)"

subsection \<open>ProvidersService\<close>

definition loadProvidersWithCoordinates :: "State \<Rightarrow> Provider list" where
  "loadProvidersWithCoordinates s =
     (case providers_with_coordinates s of
        None \<Rightarrow> []
      | Some providers \<Rightarrow> providers)"

definition saveProvidersWithCoordinates :: "int \<Rightarrow> Provider list \<Rightarrow> State \<Rightarrow> State" where
  "saveProvidersWithCoordinates now providers s =
     s\<lparr>providers_with_coordinates := Some providers,
       geocoding_metadata :=
         Some \<lparr>total_providers = length providers,
               geocoded_providers = length (filter (\<lambda>p. coordinates p \<noteq> None) providers),
               last_full_geocoding = now,
               version = ''2.0''\<rparr>\<rparr>"

text \<open>
  \<^verbatim>\<open>needsGeocodingUpdate\<close>. Metadata that does not parse makes \<^verbatim>\<open>JSON.parse\<close> throw and
  the \<^verbatim>\<open>catch\<close> block return true, as missing metadata does: both are \<open>None\<close>.
\<close>

definition needsGeocodingUpdate :: "State \<Rightarrow> ApiProvider list \<Rightarrow> bool" where
  "needsGeocodingUpdate s apiProviders =
     (let cachedProviders = loadProvidersWithCoordinates s
      in if cachedProviders = [] then True
         else case geocoding_metadata s of
           None \<Rightarrow> True
         | Some metaParsed \<Rightarrow>
             if total_providers metaParsed \<noteq> length apiProviders then True
             else
               (let cachedIds = set (map id_prov cachedProviders);
                    newProviders = filter (\<lambda>p. id_prov p \<notin> cachedIds) apiProviders
                in if length newProviders > 0 then True
                   else
                     (let addressChanges =
                            list_ex
                              (\<lambda>apiProvider.
                                 case find (\<lambda>c. id_prov c = id_prov apiProvider) cachedProviders of
                                   None \<Rightarrow> False
                                 | Some cached \<Rightarrow>
                                     address cached \<noteq> address apiProvider
                                     \<or> city cached \<noteq> city apiProvider)
                              apiProviders
                      in if addressChanges then True else False)))"

text \<open>
  \<^verbatim>\<open>new Map(entries)\<close> keeps, for a key given twice, the value given last:
  \<open>cachedCoords\<close> is looked up from the end.
\<close>

definition cachedCoords :: "Provider list \<Rightarrow> (int \<times> ProviderCoordinates) list" where
  "cachedCoords cachedProviders =
     List.map_filter (\<lambda>p. map_option (\<lambda>coords. (id_prov p, coords)) (coordinates p))
       cachedProviders"

definition mergeWithCachedCoordinates :: "int \<Rightarrow> State \<Rightarrow> ApiProvider list \<Rightarrow> Provider list" where
  "mergeWithCachedCoordinates now s apiProviders =
     (let cachedProviders = loadProvidersWithCoordinates s
      in map (\<lambda>apiProvider.
                ApiProvider.extend apiProvider
                  (Provider.fields
                     (map_of (rev (cachedCoords cachedProviders)) (id_prov apiProvider))
                     None
                     (Some now)))
           apiProviders)"

text \<open>
  The loop of \<^verbatim>\<open>geocodeProviders\<close> over \<^verbatim>\<open>needsGeocodingProviders\<close>; it returns the
  records it pushes. A null answer and the \<^verbatim>\<open>catch\<close> block push the same record: the
  provider with no coordinates and a new \<^verbatim>\<open>last_updated\<close>.
\<close>

fun geocodeLoop ::
  "(nat \<Rightarrow> string \<Rightarrow> NominatimReply) \<Rightarrow> int \<Rightarrow> Provider list \<Rightarrow> State \<Rightarrow>
   Provider list \<times> State" where
  "geocodeLoop nominatim now [] s = ([], s)"
| "geocodeLoop nominatim now (provider # rest) s =
     (let (coords, s1) =
            geocodeAddress nominatim now (address provider)
              (if city provider = [] then ''COTONOU'' else city provider) defaultCountry s;
          geocodedProvider = provider\<lparr>coordinates := coords, last_updated := Some now\<rparr>;
          (pushed, s2) = geocodeLoop nominatim now rest s1
      in (geocodedProvider # pushed, s2))"

definition geocodeProviders ::
  "(nat \<Rightarrow> string \<Rightarrow> NominatimReply) \<Rightarrow> int \<Rightarrow> Provider list \<Rightarrow> State \<Rightarrow>
   Provider list \<times> State" where
  "geocodeProviders nominatim now providers s =
     (let s0 = initialize s;
          needsGeocodingProviders = filter (\<lambda>p. coordinates p = None) providers;
          alreadyGeocodedProviders = filter (\<lambda>p. coordinates p \<noteq> None) providers
      in if length needsGeocodingProviders = 0 then (providers, s0)
         else
           (let (pushed, s1) = geocodeLoop nominatim now needsGeocodingProviders s0
            in (alreadyGeocodedProviders @ pushed, s1)))"

text \<open>
  \<^verbatim>\<open>fetchProvidersFromAPI\<close>, given the reply of the directory endpoint.
  \<^verbatim>\<open>cleanExpiredCache\<close> is started without \<^verbatim>\<open>await\<close>; it runs before the caller resumes.
\<close>

definition fetchProvidersFromAPI ::
  "(nat \<Rightarrow> string \<Rightarrow> NominatimReply) \<Rightarrow> int \<Rightarrow> DirectoryReply \<Rightarrow> State \<Rightarrow>
   ApiResponse \<times> State" where
  "fetchProvidersFromAPI nominatim now reply s =
     (let s1 = s\<lparr>apiRequests := Suc (apiRequests s)\<rparr>
      in case reply of
           DirectoryData apiData \<Rightarrow>
             (let (providersWithCoordinates, s2) =
                    (if needsGeocodingUpdate s1 apiData then
                       (let mergedProviders = mergeWithCachedCoordinates now s1 apiData;
                            (geocoded, s') = geocodeProviders nominatim now mergedProviders s1
                        in (geocoded, saveProvidersWithCoordinates now geocoded s'))
                     else (mergeWithCachedCoordinates now s1 apiData, s1));
                  s3 = cleanExpiredCache now s2
              in (\<lparr>success = True, data = providersWithCoordinates,
                   message = Some (Processed (length providersWithCoordinates)),
                   error = None\<rparr>, s3))
         | DirectoryError msg \<Rightarrow>
             (let cachedProvidersWithCoords = loadProvidersWithCoordinates s1
              in if length cachedProvidersWithCoords > 0 then
                   (\<lparr>success = True, data = cachedProvidersWithCoords,
                     message = Some ApiUnreachableFullCache, error = None\<rparr>, s1)
                 else
                   (\<lparr>success = False, data = [], message = None, error = Some msg\<rparr>, s1)))"

definition saveToCache :: "int \<Rightarrow> Provider list \<Rightarrow> State \<Rightarrow> State" where
  "saveToCache now providers s =
     saveProvidersWithCoordinates now providers
       (s\<lparr>providers_cache := Some providers, last_sync := Some now\<rparr>)"

definition loadFromCache :: "State \<Rightarrow> Provider list" where
  "loadFromCache s =
     (let providersWithCoords = loadProvidersWithCoordinates s
      in if length providersWithCoords > 0 then providersWithCoords
         else case providers_cache s of
                None \<Rightarrow> []
              | Some providers \<Rightarrow> providers)"

text \<open>
  \<^verbatim>\<open>isCacheExpired\<close>: \<^verbatim>\<open>diffHours > maxAgeHours\<close>, with \<^verbatim>\<open>diffHours\<close> the age in
  milliseconds divided by 3600000, is compared here in milliseconds.
\<close>

definition isCacheExpired :: "int \<Rightarrow> int \<Rightarrow> State \<Rightarrow> bool" where
  "isCacheExpired now maxAgeHours s =
     (case last_sync s of
        None \<Rightarrow> True
      | Some lastSync \<Rightarrow> now - lastSync > maxAgeHours * (1000 * 60 * 60))"

text \<open>
  \<^verbatim>\<open>syncProviders\<close>. Every operation it calls catches its own errors, so the outer
  \<^verbatim>\<open>catch\<close> block is never entered.
\<close>

definition syncProviders ::
  "(nat \<Rightarrow> string \<Rightarrow> NominatimReply) \<Rightarrow> int \<Rightarrow> DirectoryReply \<Rightarrow> bool \<Rightarrow> State \<Rightarrow>
   ApiResponse \<times> State" where
  "syncProviders nominatim now reply forceRefresh s =
     (let cacheExpired = isCacheExpired now 24 s;
          cachedProviders = loadProvidersWithCoordinates s
      in if \<not> forceRefresh \<and> \<not> cacheExpired \<and> length cachedProviders > 0 then
           (\<lparr>success = True, data = cachedProviders,
             message = Some FromCacheWithCoordinates, error = None\<rparr>, s)
         else
           (let (apiResponse, s1) = fetchProvidersFromAPI nominatim now reply s
            in if success apiResponse \<and> length (data apiResponse) > 0 then
                 (apiResponse, saveToCache now (data apiResponse) s1)
               else
                 (let cachedProviders = loadFromCache s1
                  in if length cachedProviders > 0 then
                       (\<lparr>success = True, data = cachedProviders,
                         message = Some ApiUnreachableCache, error = None\<rparr>, s1)
                     else (apiResponse, s1))))"

subsection \<open>Notions used in the properties\<close>

text \<open>The snapshot and the metadata of the second state are those of the first.\<close>

definition sameSnapshot :: "State \<Rightarrow> State \<Rightarrow> bool" where
  "sameSnapshot s s' \<longleftrightarrow>
     providers_with_coordinates s' = providers_with_coordinates s
     \<and> geocoding_metadata s' = geocoding_metadata s"

text \<open>
  The normal form the specification gives for both components of the cache key:
  case-folded, trimmed, white space collapsed.
\<close>

definition specNormalForm :: "string \<Rightarrow> string" where
  "specNormalForm s = collapseSpaces (trim (toLowerCase s))"

text \<open>
  The answers of \<^verbatim>\<open>geocodeAddress\<close> to the lookups of one geocoding pass, in the order of
  the providers looked up: the values the loop of \<^verbatim>\<open>geocodeProviders\<close> binds to
  \<^verbatim>\<open>coordinates\<close>, each lookup starting from the state the one before left. \<open>None\<close> is a
  lookup that failed.
\<close>

fun geocodeAnswers ::
  "(nat \<Rightarrow> string \<Rightarrow> NominatimReply) \<Rightarrow> int \<Rightarrow> Provider list \<Rightarrow> State \<Rightarrow>
   ProviderCoordinates option list" where
  "geocodeAnswers nominatim now [] s = []"
| "geocodeAnswers nominatim now (provider # rest) s =
     (let (coords, s1) =
            geocodeAddress nominatim now (address provider)
              (if city provider = [] then ''COTONOU'' else city provider) defaultCountry s
      in coords # geocodeAnswers nominatim now rest s1)"

subsection \<open>Sample data\<close>

text \<open>Concrete providers, coordinates and states on which the properties are run.\<close>

definition sampleProvider :: "int \<Rightarrow> string \<Rightarrow> string \<Rightarrow> ApiProvider" where
  "sampleProvider i addr cty =
     \<lparr>id_prov = i, title = ''Pharmacie'', provider_type = ''pharmacie'', emails = [],
      phones = [], code = ''P'', address = addr, external_code = '''', city = cty,
      country = None, county = None, note_prov = '''', sector = Prive, agreeged = True\<rparr>"

definition sampleCoordinates :: "int \<Rightarrow> ProviderCoordinates" where
  "sampleCoordinates t =
     \<lparr>latitude = Some 6.37, longitude = Some 2.42, geocoded_at = t,
      geocoding_source = Api, accuracy = Some Approximate\<rparr>"

definition withCoordinates :: "ApiProvider \<Rightarrow> ProviderCoordinates option \<Rightarrow> int \<Rightarrow> Provider" where
  "withCoordinates p coords t = ApiProvider.extend p (Provider.fields coords None (Some t))"

text \<open>Nothing stored, nothing loaded, no request sent.\<close>

definition emptyState :: State where
  "emptyState =
     \<lparr>providers_cache = None, providers_with_coordinates = None, geocoding_cache = None,
      geocoding_metadata = None, last_sync = None, cache = [], isInitialized = False,
      geocodingRequests = 0, apiRequests = 0\<rparr>"

definition snapshotState :: "Provider list \<Rightarrow> State" where
  "snapshotState ps = saveProvidersWithCoordinates 0 ps emptyState"

text \<open>Provider 7 stored at "12 Rue A", Cotonou, with a coordinate.\<close>

definition scenarioC :: State where
  "scenarioC =
     snapshotState
       [withCoordinates (sampleProvider 7 ''12 Rue A'' ''Cotonou'') (Some (sampleCoordinates 0)) 0]"


definition muchLater :: int where
  "muchLater = 8000000000"

text \<open>A geocoding endpoint whose second request fails and whose other requests succeed.\<close>

definition secondRequestFails :: "nat \<Rightarrow> string \<Rightarrow> NominatimReply" where
  "secondRequestFails n query =
     (if n = 1 then NetworkError else Results [(Some 6.4, Some 2.3)])"

definition answeredCoordinates :: "int \<Rightarrow> ProviderCoordinates" where
  "answeredCoordinates t =
     \<lparr>latitude = Some 6.4, longitude = Some 2.3, geocoded_at = t,
      geocoding_source = Api, accuracy = Some Approximate\<rparr>"

text \<open>Three providers of a fresh directory; the city of the second is in no table.\<close>

definition threeProviders :: "ApiProvider list" where
  "threeProviders =
     [sampleProvider 1 ''Rue 1'' ''Cotonou'',
      sampleProvider 2 ''Rue 2'' ''Atlantis'',
      sampleProvider 3 ''Rue 3'' ''Parakou'']"

text \<open>
  The state after a first synchronisation at instant 0 that fetched \<open>threeProviders\<close>, and
  the state after a forced synchronisation at instant 10 in which the directory endpoint
  answered with an empty list.
\<close>

definition syncedState :: State where
  "syncedState =
     snd (syncProviders secondRequestFails 0 (DirectoryData threeProviders) False emptyState)"

definition emptiedState :: State where
  "emptiedState = snd (syncProviders secondRequestFails 10 (DirectoryData []) True syncedState)"

text \<open>
  A state whose stored coordinate cache holds one entry, not yet loaded; a geocoding
  endpoint that is unreachable; the entry of the static table for Cotonou; and the
  state after one lookup of "12 Rue A", Cotonou, with the endpoint unreachable.
\<close>

definition storedCacheState :: State where
  "storedCacheState =
     emptyState\<lparr>geocoding_cache := Some [(''12 rue a_cotonou'', sampleCoordinates 0)]\<rparr>"

definition nominatimDown :: "nat \<Rightarrow> string \<Rightarrow> NominatimReply" where
  "nominatimDown n query = NetworkError"

definition fallbackCotonou :: "int \<Rightarrow> ProviderCoordinates" where
  "fallbackCotonou t =
     \<lparr>latitude = Some 6.3654, longitude = Some 2.4183, geocoded_at = t,
      geocoding_source = Fallback, accuracy = Some City_level\<rparr>"

definition afterFallback :: State where
  "afterFallback =
     snd (geocodeAddress nominatimDown 5 ''12 Rue A'' ''Cotonou'' defaultCountry emptyState)"

section \<open>Properties\<close>

subsection \<open>Definitions to unfold on concrete data\<close>

lemmas eval_defs =
  geocodeProviders_def geocodeAddress_def geocodeRequest_def getFallbackCoordinates_def
  createCacheKey_def initialize_def loadCache_def saveCache_def isCacheValid_def
  cityLookup_def cityCoordinates_def objectPrototypeKeys_def coordinatesCacheTimeout_def
  toLowerCase_def trim_def lowerChar_def isUpper_def isSpace_def defaultCountry_def
  emptyState_def snapshotState_def sampleProvider_def sampleCoordinates_def
  withCoordinates_def ApiProvider.defs Provider.defs Let_def
  mergeWithCachedCoordinates_def loadProvidersWithCoordinates_def
  saveProvidersWithCoordinates_def cachedCoords_def List.map_filter_simps

lemmas sync_defs =
  syncProviders_def fetchProvidersFromAPI_def needsGeocodingUpdate_def saveToCache_def
  loadFromCache_def isCacheExpired_def cleanExpiredCache_def secondRequestFails_def
  threeProviders_def answeredCoordinates_def

subsection \<open>Records\<close>

lemma truncate_extend [simp]: "ApiProvider.truncate (ApiProvider.extend p ext) = p"
  by (simp add: ApiProvider.defs)

lemma id_prov_extend [simp]: "id_prov (ApiProvider.extend p ext) = id_prov p"
  by (simp add: ApiProvider.defs)

lemma address_extend [simp]:
  "address (ApiProvider.extend p ext) = address p" "city (ApiProvider.extend p ext) = city p"
  by (simp_all add: ApiProvider.defs)

lemma provider_fields [simp]:
  "coordinates (ApiProvider.extend p (Provider.fields c d l)) = c"
  "distance_from_user (ApiProvider.extend p (Provider.fields c d l)) = d"
  "last_updated (ApiProvider.extend p (Provider.fields c d l)) = l"
  by (simp_all add: ApiProvider.defs Provider.defs)

lemma truncate_update [simp]:
  "ApiProvider.truncate (p\<lparr>coordinates := c, last_updated := l\<rparr>) = ApiProvider.truncate p"
  by (simp add: ApiProvider.defs)

lemma restamp_extend:
  "(ApiProvider.extend a (Provider.fields c d (Some t1)))\<lparr>last_updated := Some t2\<rparr>
   = ApiProvider.extend a (Provider.fields c d (Some t2))"
  by (simp add: ApiProvider.defs Provider.defs)

subsection \<open>What each operation leaves unchanged\<close>

lemma initialize_requests [simp]:
  "geocodingRequests (initialize s) = geocodingRequests s"
  "apiRequests (initialize s) = apiRequests s"
  by (simp_all add: initialize_def loadCache_def split: option.splits)

lemma initialize_storage [simp]:
  "providers_with_coordinates (initialize s) = providers_with_coordinates s"
  "providers_cache (initialize s) = providers_cache s"
  "geocoding_metadata (initialize s) = geocoding_metadata s"
  "last_sync (initialize s) = last_sync s"
  by (simp_all add: initialize_def loadCache_def split: option.splits)

lemma initialize_idem [simp]: "initialize (initialize s) = initialize s"
  by (simp add: initialize_def)

lemma isInitialized_initialize [simp]: "isInitialized (initialize s)"
  by (simp add: initialize_def)

lemma initialize_update_cache [simp]:
  "initialize ((initialize s)\<lparr>cache := c\<rparr>) = (initialize s)\<lparr>cache := c\<rparr>"
  by (simp add: initialize_def)

lemma getFallbackCoordinates_frame [simp]:
  "geocodingRequests (snd (getFallbackCoordinates now cty s)) = geocodingRequests s"
  "apiRequests (snd (getFallbackCoordinates now cty s)) = apiRequests s"
  "providers_with_coordinates (snd (getFallbackCoordinates now cty s)) = providers_with_coordinates s"
  "providers_cache (snd (getFallbackCoordinates now cty s)) = providers_cache s"
  "geocoding_metadata (snd (getFallbackCoordinates now cty s)) = geocoding_metadata s"
  "last_sync (snd (getFallbackCoordinates now cty s)) = last_sync s"
  "isInitialized (snd (getFallbackCoordinates now cty s)) = isInitialized s"
  by (simp_all add: getFallbackCoordinates_def saveCache_def Let_def split: option.splits)

lemma geocodeRequest_frame [simp]:
  "geocodingRequests (snd (geocodeRequest nominatim now addr cty cntry key s)) = Suc (geocodingRequests s)"
  "apiRequests (snd (geocodeRequest nominatim now addr cty cntry key s)) = apiRequests s"
  "providers_with_coordinates (snd (geocodeRequest nominatim now addr cty cntry key s)) = providers_with_coordinates s"
  "providers_cache (snd (geocodeRequest nominatim now addr cty cntry key s)) = providers_cache s"
  "geocoding_metadata (snd (geocodeRequest nominatim now addr cty cntry key s)) = geocoding_metadata s"
  "last_sync (snd (geocodeRequest nominatim now addr cty cntry key s)) = last_sync s"
  "isInitialized (snd (geocodeRequest nominatim now addr cty cntry key s)) = isInitialized s"
  by (simp_all add: geocodeRequest_def saveCache_def Let_def
      split: NominatimReply.splits list.splits)

lemma geocodeAddress_frame [simp]:
  "apiRequests (snd (geocodeAddress nominatim now addr cty cntry s)) = apiRequests s"
  "providers_with_coordinates (snd (geocodeAddress nominatim now addr cty cntry s)) = providers_with_coordinates s"
  "providers_cache (snd (geocodeAddress nominatim now addr cty cntry s)) = providers_cache s"
  "geocoding_metadata (snd (geocodeAddress nominatim now addr cty cntry s)) = geocoding_metadata s"
  "last_sync (snd (geocodeAddress nominatim now addr cty cntry s)) = last_sync s"
  "isInitialized (snd (geocodeAddress nominatim now addr cty cntry s))"
  by (simp_all add: geocodeAddress_def Let_def split: option.splits)

lemma geocodeLoop_frame [simp]:
  "apiRequests (snd (geocodeLoop nominatim now ps s)) = apiRequests s"
  "providers_with_coordinates (snd (geocodeLoop nominatim now ps s)) = providers_with_coordinates s"
  "providers_cache (snd (geocodeLoop nominatim now ps s)) = providers_cache s"
  "geocoding_metadata (snd (geocodeLoop nominatim now ps s)) = geocoding_metadata s"
  "last_sync (snd (geocodeLoop nominatim now ps s)) = last_sync s"
  by (induction ps arbitrary: s; simp add: split_def Let_def)+

lemma geocodeProviders_frame [simp]:
  "apiRequests (snd (geocodeProviders nominatim now ps s)) = apiRequests s"
  "providers_with_coordinates (snd (geocodeProviders nominatim now ps s)) = providers_with_coordinates s"
  "providers_cache (snd (geocodeProviders nominatim now ps s)) = providers_cache s"
  "geocoding_metadata (snd (geocodeProviders nominatim now ps s)) = geocoding_metadata s"
  "last_sync (snd (geocodeProviders nominatim now ps s)) = last_sync s"
  by (simp_all add: geocodeProviders_def split_def Let_def)

lemma cleanExpiredCache_frame [simp]:
  "apiRequests (cleanExpiredCache now s) = apiRequests s"
  "geocodingRequests (cleanExpiredCache now s) = geocodingRequests s"
  "providers_with_coordinates (cleanExpiredCache now s) = providers_with_coordinates s"
  "providers_cache (cleanExpiredCache now s) = providers_cache s"
  "geocoding_metadata (cleanExpiredCache now s) = geocoding_metadata s"
  "last_sync (cleanExpiredCache now s) = last_sync s"
  by (simp_all add: cleanExpiredCache_def saveCache_def Let_def)

lemma saveProvidersWithCoordinates_frame [simp]:
  "apiRequests (saveProvidersWithCoordinates now ps s) = apiRequests s"
  "geocodingRequests (saveProvidersWithCoordinates now ps s) = geocodingRequests s"
  "providers_cache (saveProvidersWithCoordinates now ps s) = providers_cache s"
  "last_sync (saveProvidersWithCoordinates now ps s) = last_sync s"
  "providers_with_coordinates (saveProvidersWithCoordinates now ps s) = Some ps"
  by (simp_all add: saveProvidersWithCoordinates_def)

lemma fetchProvidersFromAPI_requests [simp]:
  "apiRequests (snd (fetchProvidersFromAPI nominatim now reply s)) = Suc (apiRequests s)"
  by (simp add: fetchProvidersFromAPI_def split_def Let_def split: DirectoryReply.splits)

lemma saveToCache_requests [simp]:
  "apiRequests (saveToCache now ps s) = apiRequests s"
  by (simp add: saveToCache_def)

lemma load_apiRequests [simp]:
  "loadProvidersWithCoordinates (s\<lparr>apiRequests := n\<rparr>) = loadProvidersWithCoordinates s"
  "loadFromCache (s\<lparr>apiRequests := n\<rparr>) = loadFromCache s"
  by (simp_all add: loadFromCache_def loadProvidersWithCoordinates_def Let_def)

subsection \<open>The cache key\<close>

lemma createCacheKey_empty_address: "createCacheKey '''' cty = ''_'' @ trim (toLowerCase cty)"
  by (simp add: createCacheKey_def toLowerCase_def trim_def)

text \<open>
  \<^verbatim>\<open>getFallbackCoordinates\<close> stores its answer under the key of the empty address and the
  city. That key differs from the key of every address whose normal form is not empty.
\<close>

theorem fallback_key_mismatch:
  "collapseSpaces (trim (toLowerCase addr)) \<noteq> [] \<Longrightarrow>
   createCacheKey addr cty \<noteq> createCacheKey '''' cty"
  by (simp add: createCacheKey_def toLowerCase_def trim_def)

theorem fallback_key_mismatch_witness:
  "collapseSpaces (trim (toLowerCase ''12 Rue A'')) \<noteq> []
   \<and> createCacheKey ''12 Rue A'' ''Cotonou'' \<noteq> createCacheKey '''' ''Cotonou''"
proof -
  have filled: "collapseSpaces (trim (toLowerCase ''12 Rue A'')) \<noteq> []"
    by (simp add: eval_defs)
  from fallback_key_mismatch [OF filled, of "''Cotonou''"] filled show ?thesis
    by blast
qed

text \<open>
  Claim C9, as stated, fails: the city is case-folded and trimmed, but white space
  inside it is not collapsed.
\<close>

theorem createCacheKey_counterexample:
  "specNormalForm ''12 Rue A'' = specNormalForm ''12 Rue A''
   \<and> specNormalForm ''Porto  Novo'' = specNormalForm ''Porto Novo''
   \<and> createCacheKey ''12 Rue A'' ''Porto  Novo'' \<noteq> createCacheKey ''12 Rue A'' ''Porto Novo''"
  by (simp add: specNormalForm_def eval_defs)

text \<open>
  Claim C9, amended. The key is a function of the case-folded, trimmed and
  white-space-collapsed address and of the case-folded and trimmed city: two pairs that
  agree on both produce the same key.
\<close>

theorem createCacheKey_normalized:
  "specNormalForm a1 = specNormalForm a2 \<Longrightarrow> trim (toLowerCase c1) = trim (toLowerCase c2) \<Longrightarrow>
   createCacheKey a1 c1 = createCacheKey a2 c2"
  by (simp add: createCacheKey_def specNormalForm_def)

theorem createCacheKey_normalized_witness:
  "specNormalForm ''  12  RUE a '' = specNormalForm ''12 rue A''
   \<and> trim (toLowerCase '' COTONOU'') = trim (toLowerCase ''Cotonou  '')
   \<and> createCacheKey ''  12  RUE a '' '' COTONOU'' = ''12 rue a_cotonou''
   \<and> createCacheKey ''12 rue A'' ''Cotonou  '' = ''12 rue a_cotonou''"
proof -
  have a: "specNormalForm ''  12  RUE a '' = specNormalForm ''12 rue A''"
    by (simp add: specNormalForm_def eval_defs)
  have c: "trim (toLowerCase '' COTONOU'') = trim (toLowerCase ''Cotonou  '')"
    by (simp add: eval_defs)
  have k: "createCacheKey ''12 rue A'' ''Cotonou  '' = ''12 rue a_cotonou''"
    by (simp add: eval_defs)
  from createCacheKey_normalized [OF a c] a c k show ?thesis by simp
qed

subsection \<open>The geocoding resolver\<close>

text \<open>
  Claim C4. Let the coordinate store (the cache once loaded) hold an entry under the
  key of an address and city. If the entry is younger than the expiry window of 90 days,
  \<^verbatim>\<open>geocodeAddress\<close> returns it and sends no request. If its age is at least the window,
  \<^verbatim>\<open>geocodeAddress\<close> behaves as on the store without the entry: it sends one request to
  the geocoding endpoint and goes on as \<open>geocodeRequest\<close> does, to the static table when
  the request gives nothing.
\<close>

theorem geocodeAddress_cache_expiry:
  "map_of (cache (initialize s)) (createCacheKey addr cty) = Some cached \<Longrightarrow>
   coordinatesCacheTimeout = 7776000000
   \<and> (now - geocoded_at cached < coordinatesCacheTimeout \<longrightarrow>
        geocodeAddress nominatim now addr cty cntry s = (Some cached, initialize s)
        \<and> geocodingRequests (snd (geocodeAddress nominatim now addr cty cntry s))
            = geocodingRequests s)
   \<and> (coordinatesCacheTimeout \<le> now - geocoded_at cached \<longrightarrow>
        geocodeAddress nominatim now addr cty cntry s
          = geocodeAddress nominatim now addr cty cntry
              ((initialize s)\<lparr>cache := AList.delete (createCacheKey addr cty) (cache (initialize s))\<rparr>)
        \<and> map_of (AList.delete (createCacheKey addr cty) (cache (initialize s)))
              (createCacheKey addr cty) = None
        \<and> geocodeAddress nominatim now addr cty cntry s
          = geocodeRequest nominatim now addr cty cntry (createCacheKey addr cty)
              ((initialize s)\<lparr>cache := AList.delete (createCacheKey addr cty) (cache (initialize s))\<rparr>)
        \<and> geocodingRequests (snd (geocodeAddress nominatim now addr cty cntry s))
            = Suc (geocodingRequests s))"
proof -
  assume entry: "map_of (cache (initialize s)) (createCacheKey addr cty) = Some cached"
  let ?key = "createCacheKey addr cty"
  let ?dropped = "(initialize s)\<lparr>cache := AList.delete ?key (cache (initialize s))\<rparr>"
  have absent: "map_of (AList.delete ?key (cache (initialize s))) ?key = None"
    by (simp add: delete_conv')
  have hit: "geocodeAddress nominatim now addr cty cntry s = (Some cached, initialize s)"
    if "now - geocoded_at cached < coordinatesCacheTimeout"
    using entry that by (simp add: geocodeAddress_def isCacheValid_def)
  have miss: "geocodeAddress nominatim now addr cty cntry s
              = geocodeRequest nominatim now addr cty cntry ?key ?dropped"
    if "coordinatesCacheTimeout \<le> now - geocoded_at cached"
    using entry that by (simp add: geocodeAddress_def isCacheValid_def Let_def)
  have as_absent: "geocodeAddress nominatim now addr cty cntry ?dropped
              = geocodeRequest nominatim now addr cty cntry ?key ?dropped"
    using absent by (simp add: geocodeAddress_def Let_def)
  show ?thesis
    using hit miss as_absent absent by (simp add: coordinatesCacheTimeout_def)
qed

theorem geocodeAddress_cache_expiry_witness:
  "map_of (cache (initialize storedCacheState)) (createCacheKey ''12 Rue A'' ''Cotonou'')
     = Some (sampleCoordinates 0)
   \<and> fst (geocodeAddress secondRequestFails 1000 ''12 Rue A'' ''Cotonou'' defaultCountry
            storedCacheState) = Some (sampleCoordinates 0)
   \<and> geocodingRequests (snd (geocodeAddress secondRequestFails 1000 ''12 Rue A'' ''Cotonou''
                                defaultCountry storedCacheState)) = 0
   \<and> coordinatesCacheTimeout \<le> muchLater - geocoded_at (sampleCoordinates 0)
   \<and> fst (geocodeAddress secondRequestFails muchLater ''12 Rue A'' ''Cotonou'' defaultCountry
            storedCacheState) = Some (answeredCoordinates muchLater)
   \<and> geocodingRequests (snd (geocodeAddress secondRequestFails muchLater ''12 Rue A'' ''Cotonou''
                                defaultCountry storedCacheState)) = 1"
proof -
  have entry: "map_of (cache (initialize storedCacheState)) (createCacheKey ''12 Rue A'' ''Cotonou'')
     = Some (sampleCoordinates 0)"
    by (simp add: storedCacheState_def eval_defs)
  have request: "fst (geocodeRequest secondRequestFails muchLater ''12 Rue A'' ''Cotonou''
            defaultCountry (createCacheKey ''12 Rue A'' ''Cotonou'')
            ((initialize storedCacheState)
               \<lparr>cache := AList.delete (createCacheKey ''12 Rue A'' ''Cotonou'')
                           (cache (initialize storedCacheState))\<rparr>))
          = Some (answeredCoordinates muchLater)"
    by (simp add: storedCacheState_def eval_defs secondRequestFails_def answeredCoordinates_def)
  have fresh: "1000 - geocoded_at (sampleCoordinates 0) < coordinatesCacheTimeout"
    and old: "coordinatesCacheTimeout \<le> muchLater - geocoded_at (sampleCoordinates 0)"
    by (simp_all add: sampleCoordinates_def coordinatesCacheTimeout_def muchLater_def)
  have zero: "geocodingRequests storedCacheState = 0"
    by (simp add: storedCacheState_def emptyState_def)
  note hit = geocodeAddress_cache_expiry [OF entry, of 1000 secondRequestFails defaultCountry]
  note miss = geocodeAddress_cache_expiry [OF entry, of muchLater secondRequestFails defaultCountry]
  from hit fresh have h1: "geocodeAddress secondRequestFails 1000 ''12 Rue A'' ''Cotonou''
       defaultCountry storedCacheState = (Some (sampleCoordinates 0), initialize storedCacheState)"
    and h2: "geocodingRequests (snd (geocodeAddress secondRequestFails 1000 ''12 Rue A''
       ''Cotonou'' defaultCountry storedCacheState)) = geocodingRequests storedCacheState"
    by blast+
  from miss old have m1: "geocodeAddress secondRequestFails muchLater ''12 Rue A'' ''Cotonou''
       defaultCountry storedCacheState
       = geocodeRequest secondRequestFails muchLater ''12 Rue A'' ''Cotonou''
            defaultCountry (createCacheKey ''12 Rue A'' ''Cotonou'')
            ((initialize storedCacheState)
               \<lparr>cache := AList.delete (createCacheKey ''12 Rue A'' ''Cotonou'')
                           (cache (initialize storedCacheState))\<rparr>)"
    and m2: "geocodingRequests (snd (geocodeAddress secondRequestFails muchLater ''12 Rue A''
       ''Cotonou'' defaultCountry storedCacheState)) = Suc (geocodingRequests storedCacheState)"
    by blast+
  from entry old zero h1 h2 m2 request [folded m1] show ?thesis
    by simp
qed

text \<open>
  A reply with at least one result gives a coordinate tagged \<^verbatim>\<open>api\<close>, approximate when
  the address is not blank and city-level otherwise.
\<close>

lemma geocodeRequest_usable:
  "nominatim (geocodingRequests s)
     (if trim addr \<noteq> [] then addr @ '', '' @ cty @ '', '' @ cntry else cty @ '', '' @ cntry)
   = Results (result # rest) \<Longrightarrow>
   fst (geocodeRequest nominatim now addr cty cntry key s)
   = Some \<lparr>latitude = fst result, longitude = snd result, geocoded_at = now,
           geocoding_source = Api,
           accuracy = Some (if trim addr \<noteq> [] then Approximate else City_level)\<rparr>"
  by (simp add: geocodeRequest_def Let_def)

text \<open>
  On a network error, a status that is not 2xx, a body that is not JSON or an empty
  result, \<open>geocodeRequest\<close> is \<^verbatim>\<open>getFallbackCoordinates\<close> on the city, after one request.
\<close>

theorem geocodeRequest_unusable:
  "nominatim (geocodingRequests s)
     (if trim addr \<noteq> [] then addr @ '', '' @ cty @ '', '' @ cntry else cty @ '', '' @ cntry)
   \<in> {NetworkError, MalformedPayload, Results []} \<union> range HttpError \<Longrightarrow>
   geocodeRequest nominatim now addr cty cntry key s
   = getFallbackCoordinates now cty (s\<lparr>geocodingRequests := Suc (geocodingRequests s)\<rparr>)"
  by (auto simp: geocodeRequest_def Let_def)

theorem geocodeRequest_unusable_witness:
  "nominatimDown (geocodingRequests emptyState) (''Rue 2, Atlantis, '' @ defaultCountry)
     = NetworkError
   \<and> geocodeRequest nominatimDown 5 ''Rue 2'' ''Atlantis'' defaultCountry ''rue 2_atlantis''
         emptyState
       = getFallbackCoordinates 5 ''Atlantis''
           (emptyState\<lparr>geocodingRequests := Suc (geocodingRequests emptyState)\<rparr>)"
  using geocodeRequest_unusable [of nominatimDown emptyState "''Rue 2''" "''Atlantis''"
      defaultCountry 5 "''rue 2_atlantis''"]
  by (simp add: nominatimDown_def)

text \<open>
  For a city whose case-folded, trimmed name is in the static table,
  \<^verbatim>\<open>getFallbackCoordinates\<close> returns the table's coordinate, tagged fallback and
  city-level.
\<close>

theorem getFallbackCoordinates_known:
  "map_of cityCoordinates (trim (toLowerCase cty)) = Some (lat, lng) \<Longrightarrow>
   fst (getFallbackCoordinates now cty s)
   = Some \<lparr>latitude = Some lat, longitude = Some lng, geocoded_at = now,
           geocoding_source = Fallback, accuracy = Some City_level\<rparr>"
  by (simp add: getFallbackCoordinates_def cityLookup_def Let_def)

theorem getFallbackCoordinates_known_witness:
  "map_of cityCoordinates (trim (toLowerCase '' Porto-Novo '')) = Some (6.4969, 2.6283)
   \<and> fst (getFallbackCoordinates 5 '' Porto-Novo '' emptyState)
       = Some \<lparr>latitude = Some 6.4969, longitude = Some 2.6283, geocoded_at = 5,
               geocoding_source = Fallback, accuracy = Some City_level\<rparr>"
proof -
  have known: "map_of cityCoordinates (trim (toLowerCase '' Porto-Novo ''))
               = Some (6.4969, 2.6283)"
    by (simp add: eval_defs)
  from getFallbackCoordinates_known [OF known, of 5 emptyState] known show ?thesis
    by blast
qed

lemma lowerChar_not_upper: "\<not> isUpper (lowerChar c)"
  by (cases c) (auto simp: lowerChar_def isUpper_def)

lemma set_trim: "set (trim s) \<subseteq> set s"
  by (auto simp: trim_def dest!: set_dropWhileD)

lemma normalized_city_not_upper: "c \<in> set (trim (toLowerCase cty)) \<Longrightarrow> \<not> isUpper c"
  using set_trim [of "toLowerCase cty"] by (auto simp: toLowerCase_def lowerChar_not_upper)

lemma normalized_city_inherited:
  "trim (toLowerCase cty) \<in> set objectPrototypeKeys \<longleftrightarrow>
   trim (toLowerCase cty) = ''constructor'' \<or> trim (toLowerCase cty) = ''__proto__''"
proof -
  have upper: "isUpper CHR ''O''" "isUpper CHR ''P''" "isUpper CHR ''I''" "isUpper CHR ''S''"
    "isUpper CHR ''G''" "isUpper CHR ''L''"
    by (simp_all add: isUpper_def)
  have no: "c \<notin> set (trim (toLowerCase cty))" if "isUpper c" for c
    using normalized_city_not_upper that by blast
  have "trim (toLowerCase cty) \<noteq> k"
    if "k \<in> {''hasOwnProperty'', ''isPrototypeOf'', ''propertyIsEnumerable'',
             ''toLocaleString'', ''toString'', ''valueOf'', ''__defineGetter__'',
             ''__defineSetter__'', ''__lookupGetter__'', ''__lookupSetter__''}" for k
  proof
    assume eq: "trim (toLowerCase cty) = k"
    from that have "\<exists>c \<in> set k. isUpper c"
      using upper by auto
    with no eq show False by blast
  qed
  then show ?thesis
    by (auto simp: objectPrototypeKeys_def)
qed

text \<open>
  \<^verbatim>\<open>getFallbackCoordinates\<close> returns null exactly for the cities whose case-folded,
  trimmed name is not in the static table and is neither "constructor" nor "__proto__",
  the two inherited property names that a case-folded name can be.
\<close>

theorem getFallbackCoordinates_absent_iff:
  "fst (getFallbackCoordinates now cty s) = None \<longleftrightarrow>
   map_of cityCoordinates (trim (toLowerCase cty)) = None
   \<and> trim (toLowerCase cty) \<noteq> ''constructor'' \<and> trim (toLowerCase cty) \<noteq> ''__proto__''"
  using normalized_city_inherited [of cty]
  by (auto simp: getFallbackCoordinates_def cityLookup_def Let_def split: option.splits)

text \<open>
  Claim C5 at the city "Constructor", with the endpoint unreachable: the city is not in
  the static table, and \<^verbatim>\<open>geocodeAddress\<close> returns a coordinate tagged fallback and
  city-level, with no latitude and no longitude, where the claim has it return null.
\<close>

theorem fallback_inherited_property:
  "map_of cityCoordinates (trim (toLowerCase ''Constructor'')) = None
   \<and> fst (geocodeAddress nominatimDown 5 ''Rue 1'' ''Constructor'' defaultCountry emptyState)
       = Some \<lparr>latitude = None, longitude = None, geocoded_at = 5,
               geocoding_source = Fallback, accuracy = Some City_level\<rparr>"
  by (simp add: eval_defs nominatimDown_def)

text \<open>
  Claim C8 at "12 Rue A", Cotonou, with the endpoint unreachable: the first lookup
  returns the fallback coordinate of Cotonou and stores it under the key of the empty
  address; the second lookup reads the key of "12 Rue A", finds nothing, and sends a
  second request, where the claim has it answered from the cache.
\<close>

theorem fallback_not_reused:
  "fst (geocodeAddress nominatimDown 5 ''12 Rue A'' ''Cotonou'' defaultCountry emptyState)
     = Some (fallbackCotonou 5)
   \<and> geocodingRequests afterFallback = 1
   \<and> cache afterFallback = [(''_cotonou'', fallbackCotonou 5)]
   \<and> createCacheKey ''12 Rue A'' ''Cotonou'' = ''12 rue a_cotonou''
   \<and> fst (geocodeAddress nominatimDown 5 ''12 Rue A'' ''Cotonou'' defaultCountry afterFallback)
       = Some (fallbackCotonou 5)
   \<and> geocodingRequests
        (snd (geocodeAddress nominatimDown 5 ''12 Rue A'' ''Cotonou'' defaultCountry afterFallback))
       = 2"
  by (simp add: afterFallback_def fallbackCotonou_def eval_defs nominatimDown_def)

subsection \<open>The directory reconciler\<close>

lemma find_unique_id:
  "distinct (map id_prov cs) \<Longrightarrow> c \<in> set cs \<Longrightarrow> find (\<lambda>c'. id_prov c' = id_prov c) cs = Some c"
  by (induction cs) (auto simp: rev_image_eqI)

lemma find_id_Some: "find (\<lambda>c. id_prov c = i) cs = Some c \<Longrightarrow> c \<in> set cs \<and> id_prov c = i"
  by (induction cs) (auto split: if_splits)

lemma needsGeocodingUpdate_find:
  "needsGeocodingUpdate s fresh \<longleftrightarrow>
     (loadProvidersWithCoordinates s = []
      \<or> geocoding_metadata s = None
      \<or> (\<exists>m. geocoding_metadata s = Some m \<and> length fresh \<noteq> total_providers m)
      \<or> (\<exists>p \<in> set fresh. id_prov p \<notin> id_prov ` set (loadProvidersWithCoordinates s))
      \<or> (\<exists>p \<in> set fresh. \<exists>c.
            find (\<lambda>c. id_prov c = id_prov p) (loadProvidersWithCoordinates s) = Some c
            \<and> (address c \<noteq> address p \<or> city c \<noteq> city p)))"
  unfolding needsGeocodingUpdate_def Let_def list_ex_iff
  by (auto simp: filter_empty_conv split: option.splits)

text \<open>
  Claim C3. \<^verbatim>\<open>needsGeocodingUpdate\<close> answers true exactly when (a) the stored snapshot
  is empty or missing, or (b) there is no metadata, or (c) the fresh list's length
  differs from the metadata's \<^verbatim>\<open>total_providers\<close>, or (d) a fresh identifier is not in
  the snapshot, or (e) for a fresh record the snapshot's record of the same identifier
  (the first one, as \<^verbatim>\<open>find\<close> gives it) has another address or city. When the snapshot's
  identifiers are pairwise different, (e) is: some snapshot record of the same
  identifier has another address or city.
\<close>

theorem needsGeocodingUpdate_iff:
  "(needsGeocodingUpdate s fresh \<longleftrightarrow>
     (loadProvidersWithCoordinates s = []
      \<or> geocoding_metadata s = None
      \<or> (\<exists>m. geocoding_metadata s = Some m \<and> length fresh \<noteq> total_providers m)
      \<or> (\<exists>p \<in> set fresh. id_prov p \<notin> id_prov ` set (loadProvidersWithCoordinates s))
      \<or> (\<exists>p \<in> set fresh. \<exists>c.
            find (\<lambda>c. id_prov c = id_prov p) (loadProvidersWithCoordinates s) = Some c
            \<and> (address c \<noteq> address p \<or> city c \<noteq> city p))))
   \<and> (distinct (map id_prov (loadProvidersWithCoordinates s)) \<longrightarrow>
       (needsGeocodingUpdate s fresh \<longleftrightarrow>
         (loadProvidersWithCoordinates s = []
          \<or> geocoding_metadata s = None
          \<or> (\<exists>m. geocoding_metadata s = Some m \<and> length fresh \<noteq> total_providers m)
          \<or> (\<exists>p \<in> set fresh. id_prov p \<notin> id_prov ` set (loadProvidersWithCoordinates s))
          \<or> (\<exists>p \<in> set fresh. \<exists>c \<in> set (loadProvidersWithCoordinates s).
                id_prov c = id_prov p
                \<and> (address c \<noteq> address p \<or> city c \<noteq> city p)))))"
proof -
  let ?cached = "loadProvidersWithCoordinates s"
  let ?changed = "\<lambda>c p. address c \<noteq> address p \<or> city c \<noteq> city (p::ApiProvider)"
  have first: "needsGeocodingUpdate s fresh \<longleftrightarrow>
     (?cached = []
      \<or> geocoding_metadata s = None
      \<or> (\<exists>m. geocoding_metadata s = Some m \<and> length fresh \<noteq> total_providers m)
      \<or> (\<exists>p \<in> set fresh. id_prov p \<notin> id_prov ` set ?cached)
      \<or> (\<exists>p \<in> set fresh. \<exists>c.
            find (\<lambda>c. id_prov c = id_prov p) ?cached = Some c \<and> ?changed c p))"
    by (rule needsGeocodingUpdate_find)
  have same: "(\<exists>c. find (\<lambda>c. id_prov c = id_prov p) ?cached = Some c \<and> ?changed c p)
        \<longleftrightarrow> (\<exists>c \<in> set ?cached. id_prov c = id_prov p \<and> ?changed c p)"
    if d: "distinct (map id_prov ?cached)" for p
  proof
    assume "\<exists>c. find (\<lambda>c. id_prov c = id_prov p) ?cached = Some c \<and> ?changed c p"
    then show "\<exists>c \<in> set ?cached. id_prov c = id_prov p \<and> ?changed c p"
      using find_id_Some by blast
  next
    assume "\<exists>c \<in> set ?cached. id_prov c = id_prov p \<and> ?changed c p"
    then obtain c where c: "c \<in> set ?cached" "id_prov c = id_prov p" "?changed c p"
      by blast
    from find_unique_id [OF d c(1)] c(2) have "find (\<lambda>c. id_prov c = id_prov p) ?cached = Some c"
      by simp
    with c(3) show "\<exists>c. find (\<lambda>c. id_prov c = id_prov p) ?cached = Some c \<and> ?changed c p"
      by blast
  qed
  show ?thesis
    using first same by simp
qed

theorem needsGeocodingUpdate_iff_witness:
  "loadProvidersWithCoordinates scenarioC \<noteq> []
   \<and> geocoding_metadata scenarioC \<noteq> None
   \<and> distinct (map id_prov (loadProvidersWithCoordinates scenarioC))
   \<and> needsGeocodingUpdate scenarioC [sampleProvider 7 ''45 Rue B'' ''Cotonou'']
   \<and> \<not> needsGeocodingUpdate scenarioC [sampleProvider 7 ''12 Rue A'' ''Cotonou'']"
  using needsGeocodingUpdate_iff [of scenarioC "[sampleProvider 7 ''45 Rue B'' ''Cotonou'']"]
    needsGeocodingUpdate_iff [of scenarioC "[sampleProvider 7 ''12 Rue A'' ''Cotonou'']"]
  by (simp add: scenarioC_def snapshotState_def emptyState_def saveProvidersWithCoordinates_def
      loadProvidersWithCoordinates_def withCoordinates_def sampleProvider_def
      ApiProvider.defs Provider.defs)








lemma find_first_same_id:
  "p \<in> set ps \<Longrightarrow> \<exists>q. find (\<lambda>c. id_prov c = id_prov p) ps = Some q \<and> q \<in> set ps \<and> id_prov q = id_prov p"
  by (induction ps) auto

lemma find_map_extend:
  "find (\<lambda>c. id_prov c = i) (map (\<lambda>a. ApiProvider.extend a (f a)) fresh)
   = map_option (\<lambda>a. ApiProvider.extend a (f a)) (find (\<lambda>a. id_prov a = i) fresh)"
  by (induction fresh) auto

lemma needsGeocodingUpdate_sameSnapshot:
  "sameSnapshot s s' \<Longrightarrow> needsGeocodingUpdate s' fresh = needsGeocodingUpdate s fresh"
  by (simp add: sameSnapshot_def needsGeocodingUpdate_def loadProvidersWithCoordinates_def)

lemma needsGeocodingUpdate_after_merge:
  "needsGeocodingUpdate
     (saveProvidersWithCoordinates t (mergeWithCachedCoordinates now s fresh) s0) fresh
   \<longleftrightarrow> fresh = []
       \<or> (\<exists>p \<in> set fresh. \<exists>q \<in> set fresh.
             id_prov p = id_prov q \<and> (address p \<noteq> address q \<or> city p \<noteq> city q))"
  (is "?lhs \<longleftrightarrow> ?empty \<or> ?clash")
proof -
  let ?merged = "mergeWithCachedCoordinates now s fresh"
  let ?s1 = "saveProvidersWithCoordinates t ?merged s0"
  have load: "loadProvidersWithCoordinates ?s1 = ?merged"
    by (simp add: saveProvidersWithCoordinates_def loadProvidersWithCoordinates_def)
  have meta: "geocoding_metadata ?s1 \<noteq> None" 
    "\<And>m. geocoding_metadata ?s1 = Some m \<Longrightarrow> total_providers m = length fresh"
    by (auto simp: saveProvidersWithCoordinates_def mergeWithCachedCoordinates_def)
  have ids: "id_prov ` set ?merged = id_prov ` set fresh"
    by (auto simp: mergeWithCachedCoordinates_def image_iff)
  have found: "(\<exists>c. find (\<lambda>c. id_prov c = id_prov p) ?merged = Some c
                  \<and> (address c \<noteq> address p \<or> city c \<noteq> city p))
               \<longleftrightarrow> (\<exists>a. find (\<lambda>a. id_prov a = id_prov p) fresh = Some a
                  \<and> (address a \<noteq> address p \<or> city a \<noteq> city p))" for p
    by (auto simp: mergeWithCachedCoordinates_def find_map_extend)
  have none_new: "\<not> (\<exists>p \<in> set fresh. id_prov p \<notin> id_prov ` set ?merged)"
    using ids by blast
  have total: "\<not> (\<exists>m. geocoding_metadata ?s1 = Some m \<and> length fresh \<noteq> total_providers m)"
    using meta(2) by auto
  have "?lhs \<longleftrightarrow> ?merged = [] \<or> (\<exists>p \<in> set fresh. \<exists>a. find (\<lambda>a. id_prov a = id_prov p) fresh = Some a
                  \<and> (address a \<noteq> address p \<or> city a \<noteq> city p))"
    unfolding needsGeocodingUpdate_find [of ?s1 fresh] load found
    using none_new total meta(1) by blast
  moreover have "?merged = [] \<longleftrightarrow> fresh = []"
    by (simp add: mergeWithCachedCoordinates_def)
  moreover have "(\<exists>p \<in> set fresh. \<exists>a. find (\<lambda>a. id_prov a = id_prov p) fresh = Some a
                  \<and> (address a \<noteq> address p \<or> city a \<noteq> city p)) \<longleftrightarrow> ?clash"
  proof
    assume "\<exists>p \<in> set fresh. \<exists>a. find (\<lambda>a. id_prov a = id_prov p) fresh = Some a
                  \<and> (address a \<noteq> address p \<or> city a \<noteq> city p)"
    then obtain p a where "p \<in> set fresh" "find (\<lambda>a. id_prov a = id_prov p) fresh = Some a"
      "address a \<noteq> address p \<or> city a \<noteq> city p" by blast
    moreover from this(2) have "a \<in> set fresh" "id_prov a = id_prov p"
      by (auto simp: find_Some_iff)
    ultimately show ?clash by metis
  next
    assume ?clash
    then obtain p q where pq: "p \<in> set fresh" "q \<in> set fresh" "id_prov p = id_prov q"
      "address p \<noteq> address q \<or> city p \<noteq> city q" by blast
    from find_first_same_id [OF pq(1)] obtain a where
      a: "find (\<lambda>c. id_prov c = id_prov p) fresh = Some a" by blast
    with pq(3) have a': "find (\<lambda>c. id_prov c = id_prov q) fresh = Some a" by simp
    from pq(4) have "(address a \<noteq> address p \<or> city a \<noteq> city p)
                     \<or> (address a \<noteq> address q \<or> city a \<noteq> city q)"
      by auto
    with a a' pq(1,2) show "\<exists>p \<in> set fresh. \<exists>a. find (\<lambda>a. id_prov a = id_prov p) fresh = Some a
                  \<and> (address a \<noteq> address p \<or> city a \<noteq> city p)"
      by blast
  qed
  ultimately show ?thesis by simp
qed

lemma merge_restamp:
  "mergeWithCachedCoordinates now2 s fresh
   = map (\<lambda>q. q\<lparr>last_updated := Some now2\<rparr>) (mergeWithCachedCoordinates now1 s fresh)"
  by (simp add: mergeWithCachedCoordinates_def comp_def restamp_extend)

lemma merge_same_snapshot:
  "providers_with_coordinates s2 = providers_with_coordinates s \<Longrightarrow>
   mergeWithCachedCoordinates now s2 fresh = mergeWithCachedCoordinates now s fresh"
  by (simp add: mergeWithCachedCoordinates_def loadProvidersWithCoordinates_def)

lemma merge_truncate:
  "map ApiProvider.truncate (mergeWithCachedCoordinates now s api) = api"
  by (simp add: mergeWithCachedCoordinates_def comp_def)

text \<open>
  Claim C7, amended. Let the snapshot and the metadata be those written by
  \<^verbatim>\<open>saveProvidersWithCoordinates\<close> on the merge of a fresh list, in any later state.
  Then \<^verbatim>\<open>needsGeocodingUpdate\<close> on the same fresh list answers true exactly when the list
  is empty or two of its records share an identifier and differ in address or city; so
  it answers false, at every call, for a list that is not empty and whose identifiers
  are pairwise different. Two runs of \<^verbatim>\<open>mergeWithCachedCoordinates\<close> on the same list and
  the same snapshot differ only in \<^verbatim>\<open>last_updated\<close>, which is the clock reading of each
  run.
\<close>

theorem reconciliation_idempotent:
  "(sameSnapshot (saveProvidersWithCoordinates t (mergeWithCachedCoordinates now s fresh) s0) s'
      \<longrightarrow> (needsGeocodingUpdate s' fresh \<longleftrightarrow>
             fresh = []
             \<or> (\<exists>p \<in> set fresh. \<exists>q \<in> set fresh.
                   id_prov p = id_prov q \<and> (address p \<noteq> address q \<or> city p \<noteq> city q))))
   \<and> (fresh \<noteq> [] \<and> distinct (map id_prov fresh)
       \<and> sameSnapshot (saveProvidersWithCoordinates t (mergeWithCachedCoordinates now s fresh) s0) s'
      \<longrightarrow> \<not> needsGeocodingUpdate s' fresh)
   \<and> mergeWithCachedCoordinates now2 s fresh
       = map (\<lambda>q. q\<lparr>last_updated := Some now2\<rparr>) (mergeWithCachedCoordinates now s fresh)
   \<and> (providers_with_coordinates s2 = providers_with_coordinates s
      \<longrightarrow> mergeWithCachedCoordinates now s2 fresh = mergeWithCachedCoordinates now s fresh)"
proof -
  let ?saved = "saveProvidersWithCoordinates t (mergeWithCachedCoordinates now s fresh) s0"
  let ?clash = "\<exists>p \<in> set fresh. \<exists>q \<in> set fresh.
                   id_prov p = id_prov q \<and> (address p \<noteq> address q \<or> city p \<noteq> city q)"
  have exact: "needsGeocodingUpdate s' fresh \<longleftrightarrow> fresh = [] \<or> ?clash"
    if "sameSnapshot ?saved s'"
    using needsGeocodingUpdate_sameSnapshot [OF that, of fresh] needsGeocodingUpdate_after_merge [of t now s fresh s0]
    by simp
  have no_clash: "\<not> ?clash" if d: "distinct (map id_prov fresh)"
  proof
    assume ?clash
    then obtain p q where pq: "p \<in> set fresh" "q \<in> set fresh" "id_prov p = id_prov q"
      "address p \<noteq> address q \<or> city p \<noteq> city q" by blast
    from d pq(1,2,3) have "p = q" by (meson distinct_map inj_onD)
    with pq(4) show False by simp
  qed
  from exact no_clash merge_restamp [of now2 s fresh now] merge_same_snapshot [of s2 s now fresh]
  show ?thesis by blast
qed

theorem reconciliation_idempotent_witness:
  "threeProviders \<noteq> []
   \<and> distinct (map id_prov threeProviders)
   \<and> \<not> needsGeocodingUpdate
         (saveProvidersWithCoordinates 5 (mergeWithCachedCoordinates 5 scenarioC threeProviders)
            scenarioC)
         threeProviders
   \<and> mergeWithCachedCoordinates 9 scenarioC threeProviders
       = map (\<lambda>q. q\<lparr>last_updated := Some 9\<rparr>) (mergeWithCachedCoordinates 5 scenarioC threeProviders)"
  using reconciliation_idempotent [of 5 5 scenarioC threeProviders scenarioC
      "saveProvidersWithCoordinates 5 (mergeWithCachedCoordinates 5 scenarioC threeProviders) scenarioC"
      9 scenarioC]
  by (simp add: sameSnapshot_def threeProviders_def sampleProvider_def)

theorem reconciliation_counterexample:
  "needsGeocodingUpdate
     (saveProvidersWithCoordinates 5 (mergeWithCachedCoordinates 5 scenarioC []) scenarioC) []
   \<and> needsGeocodingUpdate
       (saveProvidersWithCoordinates 5
          (mergeWithCachedCoordinates 5 scenarioC
             [sampleProvider 1 ''Rue 1'' ''Cotonou'', sampleProvider 1 ''Rue 2'' ''Cotonou''])
          scenarioC)
       [sampleProvider 1 ''Rue 1'' ''Cotonou'', sampleProvider 1 ''Rue 2'' ''Cotonou'']
   \<and> mergeWithCachedCoordinates 5 scenarioC [sampleProvider 1 ''Rue 1'' ''Cotonou'']
       \<noteq> mergeWithCachedCoordinates 9 scenarioC [sampleProvider 1 ''Rue 1'' ''Cotonou'']"
  by (simp add: eval_defs scenarioC_def needsGeocodingUpdate_def)

subsection \<open>The geocoding pass\<close>

lemma geocodeLoop_truncate:
  "map ApiProvider.truncate (fst (geocodeLoop nominatim now ps s)) = map ApiProvider.truncate ps"
  by (induction ps arbitrary: s) (simp_all add: split_def Let_def)

lemma geocodeLoop_stamp:
  "q \<in> set (fst (geocodeLoop nominatim now ps s)) \<Longrightarrow> last_updated q = Some now"
  by (induction ps arbitrary: s) (auto simp: split_def Let_def)

lemma not_None_filter: "filter (\<lambda>p. coordinates p = None) ps = [] \<Longrightarrow> filter (\<lambda>p. coordinates p \<noteq> None) ps = ps"
  by (induction ps) (auto split: if_splits)

lemma geocodeProviders_output:
  "fst (geocodeProviders nominatim now ps s)
   = filter (\<lambda>p. coordinates p \<noteq> None) ps
     @ (if filter (\<lambda>p. coordinates p = None) ps = [] then []
        else fst (geocodeLoop nominatim now (filter (\<lambda>p. coordinates p = None) ps)
                    (initialize s)))"
proof (cases "filter (\<lambda>p. coordinates p = None) ps = []")
  case True
  have "fst (geocodeProviders nominatim now ps s) = ps"
    using True by (simp add: geocodeProviders_def)
  then show ?thesis
    using not_None_filter [OF True] True by simp
next
  case False
  then show ?thesis
    by (simp add: geocodeProviders_def Let_def split_def)
qed

lemma geocodeProviders_perm:
  "mset (map ApiProvider.truncate (fst (geocodeProviders nominatim now ps s)))
   = mset (map ApiProvider.truncate ps)"
proof -
  let ?needs = "filter (\<lambda>p. coordinates p = None) ps"
  let ?already = "filter (\<lambda>p. coordinates p \<noteq> None) ps"
  have part: "mset ?already + mset ?needs = mset ps"
    by (induction ps) auto
  define pushed where
    "pushed = (if ?needs = [] then [] else fst (geocodeLoop nominatim now ?needs (initialize s)))"
  have out: "fst (geocodeProviders nominatim now ps s) = ?already @ pushed"
    unfolding pushed_def by (rule geocodeProviders_output)
  have trunc: "map ApiProvider.truncate pushed = map ApiProvider.truncate ?needs"
    by (simp add: pushed_def geocodeLoop_truncate)
  have "mset (map ApiProvider.truncate (fst (geocodeProviders nominatim now ps s)))
        = image_mset ApiProvider.truncate (mset ?already + mset ?needs)"
    by (simp only: out map_append mset_append mset_map trunc image_mset_union)
  then show ?thesis
    by (simp only: part mset_map)
qed

lemma geocodeProviders_length:
  "length (fst (geocodeProviders nominatim now ps s)) = length ps"
  using geocodeProviders_perm [of nominatim now ps s]
  by (metis length_map size_mset)

text \<open>
  Claim C10. \<^verbatim>\<open>geocodeProviders\<close> returns the providers that already carry a
  coordinate, unchanged and in their order, followed by one record for each provider
  that carries none, in their order and with the same directory fields: as many records
  as it was given, and the same directory records with the same multiplicities.
\<close>

theorem geocodeProviders_order:
  "\<exists>pushed.
     fst (geocodeProviders nominatim now ps s) = filter (\<lambda>p. coordinates p \<noteq> None) ps @ pushed
     \<and> map ApiProvider.truncate pushed
         = map ApiProvider.truncate (filter (\<lambda>p. coordinates p = None) ps)
     \<and> length (fst (geocodeProviders nominatim now ps s)) = length ps
     \<and> mset (map ApiProvider.truncate (fst (geocodeProviders nominatim now ps s)))
         = mset (map ApiProvider.truncate ps)"
proof -
  let ?needs = "filter (\<lambda>p. coordinates p = None) ps"
  define pushed where
    "pushed = (if ?needs = [] then [] else fst (geocodeLoop nominatim now ?needs (initialize s)))"
  have "fst (geocodeProviders nominatim now ps s)
        = filter (\<lambda>p. coordinates p \<noteq> None) ps @ pushed"
    unfolding pushed_def by (rule geocodeProviders_output)
  moreover have "map ApiProvider.truncate pushed = map ApiProvider.truncate ?needs"
    by (simp add: pushed_def geocodeLoop_truncate)
  ultimately show ?thesis
    using geocodeProviders_length [of nominatim now ps s]
      geocodeProviders_perm [of nominatim now ps s]
    by blast
qed

theorem geocodeProviders_order_witness:
  "fst (geocodeProviders secondRequestFails 5
          [withCoordinates (sampleProvider 1 ''Rue 1'' ''Cotonou'') None 0,
           withCoordinates (sampleProvider 7 ''12 Rue A'' ''Cotonou'') (Some (sampleCoordinates 0)) 0,
           withCoordinates (sampleProvider 2 ''Rue 2'' ''Atlantis'') None 0]
          emptyState)
   = [withCoordinates (sampleProvider 7 ''12 Rue A'' ''Cotonou'') (Some (sampleCoordinates 0)) 0,
      withCoordinates (sampleProvider 1 ''Rue 1'' ''Cotonou'') (Some (answeredCoordinates 5)) 5,
      withCoordinates (sampleProvider 2 ''Rue 2'' ''Atlantis'') None 5]"
  using geocodeProviders_order [of secondRequestFails 5
      "[withCoordinates (sampleProvider 1 ''Rue 1'' ''Cotonou'') None 0,
        withCoordinates (sampleProvider 7 ''12 Rue A'' ''Cotonou'') (Some (sampleCoordinates 0)) 0,
        withCoordinates (sampleProvider 2 ''Rue 2'' ''Atlantis'') None 0]" emptyState]
  by (simp add: eval_defs secondRequestFails_def answeredCoordinates_def)

subsection \<open>The synchronisation entry point\<close>

lemma syncedState_eval:
  "syncedState =
     \<lparr>providers_cache =
        Some [withCoordinates (sampleProvider 1 ''Rue 1'' ''Cotonou'') (Some (answeredCoordinates 0)) 0,
              withCoordinates (sampleProvider 2 ''Rue 2'' ''Atlantis'') None 0,
              withCoordinates (sampleProvider 3 ''Rue 3'' ''Parakou'') (Some (answeredCoordinates 0)) 0],
      providers_with_coordinates =
        Some [withCoordinates (sampleProvider 1 ''Rue 1'' ''Cotonou'') (Some (answeredCoordinates 0)) 0,
              withCoordinates (sampleProvider 2 ''Rue 2'' ''Atlantis'') None 0,
              withCoordinates (sampleProvider 3 ''Rue 3'' ''Parakou'') (Some (answeredCoordinates 0)) 0],
      geocoding_cache =
        Some [(''rue 1_cotonou'', answeredCoordinates 0), (''rue 3_parakou'', answeredCoordinates 0)],
      geocoding_metadata =
        Some \<lparr>total_providers = 3, geocoded_providers = 2, last_full_geocoding = 0,
              version = ''2.0''\<rparr>,
      last_sync = Some 0,
      cache = [(''rue 1_cotonou'', answeredCoordinates 0), (''rue 3_parakou'', answeredCoordinates 0)],
      isInitialized = True, geocodingRequests = 3, apiRequests = 1\<rparr>"
  by (simp add: syncedState_def sync_defs eval_defs)

lemma emptiedState_eval:
  "emptiedState =
     syncedState\<lparr>providers_with_coordinates := Some [],
       geocoding_metadata :=
         Some \<lparr>total_providers = 0, geocoded_providers = 0, last_full_geocoding = 10,
               version = ''2.0''\<rparr>,
       apiRequests := 2\<rparr>"
  by (simp add: emptiedState_def syncedState_eval sync_defs eval_defs)

text \<open>
  Claim C2, amended. Without \<^verbatim>\<open>forceRefresh\<close>, with a last synchronisation at most 24
  hours old and a stored snapshot that is not empty, \<^verbatim>\<open>syncProviders\<close> returns the stored
  snapshot and leaves the state as it is: no request is sent. With \<^verbatim>\<open>forceRefresh\<close> it
  sends exactly one request to the directory endpoint, whatever the state. The freshness
  test reads only \<^verbatim>\<open>last_sync\<close>. With an empty or missing snapshot it goes on to the
  fetch and sends one request to the directory endpoint; and the only case in which no
  request is sent is the first: no \<^verbatim>\<open>forceRefresh\<close>, a fresh last synchronisation and a
  snapshot that is not empty.
\<close>

theorem sync_cache_policy:
  "(\<not> forceRefresh \<and> \<not> isCacheExpired now 24 s \<and> loadProvidersWithCoordinates s \<noteq> [] \<longrightarrow>
      syncProviders nominatim now reply forceRefresh s
      = (\<lparr>success = True, data = loadProvidersWithCoordinates s,
          message = Some FromCacheWithCoordinates, error = None\<rparr>, s))
   \<and> apiRequests (snd (syncProviders nominatim now reply True s)) = Suc (apiRequests s)
   \<and> (isCacheExpired now 24 s \<longleftrightarrow>
        (case last_sync s of None \<Rightarrow> True | Some t \<Rightarrow> now - t > 24 * 60 * 60 * 1000))
   \<and> (loadProvidersWithCoordinates s = [] \<longrightarrow>
        apiRequests (snd (syncProviders nominatim now reply forceRefresh s)) = Suc (apiRequests s))
   \<and> (apiRequests (snd (syncProviders nominatim now reply forceRefresh s)) = apiRequests s
        \<longleftrightarrow> \<not> forceRefresh \<and> \<not> isCacheExpired now 24 s \<and> loadProvidersWithCoordinates s \<noteq> [])"
proof -
  let ?cached = "\<not> forceRefresh \<and> \<not> isCacheExpired now 24 s \<and> loadProvidersWithCoordinates s \<noteq> []"
  have fetched: "apiRequests (snd (syncProviders nominatim now reply True s)) = Suc (apiRequests s)"
    by (simp add: syncProviders_def split_def Let_def)
  have served: "syncProviders nominatim now reply forceRefresh s
      = (\<lparr>success = True, data = loadProvidersWithCoordinates s,
          message = Some FromCacheWithCoordinates, error = None\<rparr>, s)" if ?cached
    using that by (simp add: syncProviders_def)
  have window: "isCacheExpired now 24 s \<longleftrightarrow>
        (case last_sync s of None \<Rightarrow> True | Some t \<Rightarrow> now - t > 24 * 60 * 60 * 1000)"
    by (simp add: isCacheExpired_def split: option.splits)
  have goes_on: "apiRequests (snd (syncProviders nominatim now reply forceRefresh s))
                 = Suc (apiRequests s)" if "\<not> ?cached"
    using that by (auto simp: syncProviders_def split_def Let_def)
  have stays: "apiRequests (snd (syncProviders nominatim now reply forceRefresh s)) = apiRequests s"
    if ?cached
    using served [OF that] by simp
  have exact: "apiRequests (snd (syncProviders nominatim now reply forceRefresh s)) = apiRequests s
        \<longleftrightarrow> ?cached"
    using goes_on stays by (cases ?cached) auto
  from fetched served window goes_on exact show ?thesis
    by blast
qed

theorem sync_cache_policy_witness:
  "\<not> isCacheExpired 1000 24 syncedState
   \<and> loadProvidersWithCoordinates syncedState \<noteq> []
   \<and> syncProviders secondRequestFails 1000 (DirectoryError ''down'') False syncedState
       = (\<lparr>success = True, data = loadProvidersWithCoordinates syncedState,
           message = Some FromCacheWithCoordinates, error = None\<rparr>, syncedState)
   \<and> apiRequests syncedState = 1
   \<and> apiRequests (snd (syncProviders secondRequestFails 1000 (DirectoryError ''down'') True
                          syncedState)) = 2
   \<and> \<not> isCacheExpired 20 24 emptiedState
   \<and> loadProvidersWithCoordinates emptiedState = []
   \<and> apiRequests emptiedState = 2
   \<and> apiRequests (snd (syncProviders secondRequestFails 20 (DirectoryError ''down'') False
                          emptiedState)) = 3"
proof -
  have fresh: "\<not> isCacheExpired 1000 24 syncedState"
    and snapshot: "loadProvidersWithCoordinates syncedState \<noteq> []"
    and one: "apiRequests syncedState = 1"
    by (simp_all add: syncedState_eval isCacheExpired_def loadProvidersWithCoordinates_def)
  have still_fresh: "\<not> isCacheExpired 20 24 emptiedState"
    and emptied: "loadProvidersWithCoordinates emptiedState = []"
    and two: "apiRequests emptiedState = 2"
    by (simp_all add: emptiedState_eval syncedState_eval isCacheExpired_def
        loadProvidersWithCoordinates_def)
  note cached = sync_cache_policy [of False 1000 syncedState secondRequestFails
      "DirectoryError ''down''"]
  note fetched = sync_cache_policy [of False 20 emptiedState secondRequestFails
      "DirectoryError ''down''"]
  from cached fresh snapshot
  have served: "syncProviders secondRequestFails 1000 (DirectoryError ''down'') False syncedState
       = (\<lparr>success = True, data = loadProvidersWithCoordinates syncedState,
           message = Some FromCacheWithCoordinates, error = None\<rparr>, syncedState)"
    by blast
  from cached have "apiRequests (snd (syncProviders secondRequestFails 1000
      (DirectoryError ''down'') True syncedState)) = Suc (apiRequests syncedState)"
    by blast
  with one have forced: "apiRequests (snd (syncProviders secondRequestFails 1000
      (DirectoryError ''down'') True syncedState)) = 2"
    by simp
  from fetched emptied have "apiRequests (snd (syncProviders secondRequestFails 20
      (DirectoryError ''down'') False emptiedState)) = Suc (apiRequests emptiedState)"
    by blast
  with two have went_on: "apiRequests (snd (syncProviders secondRequestFails 20
      (DirectoryError ''down'') False emptiedState)) = 3"
    by simp
  from fresh snapshot served one forced still_fresh emptied two went_on show ?thesis
    by blast
qed

text \<open>
  Claim C2, as stated, fails when the stored snapshot is empty: \<open>emptiedState\<close> is
  reached by two synchronisations, its last synchronisation is fresh, and a third
  synchronisation without \<^verbatim>\<open>forceRefresh\<close> sends a request to the directory endpoint.
\<close>

theorem sync_cache_policy_counterexample:
  "\<not> isCacheExpired 20 24 emptiedState
   \<and> apiRequests emptiedState = 2
   \<and> apiRequests (snd (syncProviders secondRequestFails 20 (DirectoryError ''down'') False
                          emptiedState)) = 3
   \<and> loadProvidersWithCoordinates emptiedState = []
   \<and> data (fst (syncProviders secondRequestFails 20 (DirectoryError ''down'') False emptiedState))
       \<noteq> loadProvidersWithCoordinates emptiedState"
  by (simp add: emptiedState_eval syncedState_eval sync_defs eval_defs)

lemma fetch_error:
  "fetchProvidersFromAPI nominatim now (DirectoryError msg) s
   = (if loadProvidersWithCoordinates s \<noteq> [] then
        \<lparr>success = True, data = loadProvidersWithCoordinates s,
         message = Some ApiUnreachableFullCache, error = None\<rparr>
      else \<lparr>success = False, data = [], message = None, error = Some msg\<rparr>,
      s\<lparr>apiRequests := Suc (apiRequests s)\<rparr>)"
  by (simp add: fetchProvidersFromAPI_def Let_def)

lemma fetch_data_success:
  "success (fst (fetchProvidersFromAPI nominatim now (DirectoryData api) s))"
  by (simp add: fetchProvidersFromAPI_def Let_def split_def)

lemma fetch_data_perm:
  "mset (map ApiProvider.truncate (data (fst (fetchProvidersFromAPI nominatim now (DirectoryData api) s))))
   = mset api"
  by (simp add: fetchProvidersFromAPI_def Let_def split_def geocodeProviders_perm merge_truncate
      del: mset_map)

lemma sync_fetched:
  "forceRefresh \<or> isCacheExpired now 24 s \<or> loadProvidersWithCoordinates s = [] \<Longrightarrow>
   data (fst (fetchProvidersFromAPI nominatim now reply s)) \<noteq> [] \<Longrightarrow>
   success (fst (fetchProvidersFromAPI nominatim now reply s)) \<Longrightarrow>
   fst (syncProviders nominatim now reply forceRefresh s)
   = fst (fetchProvidersFromAPI nominatim now reply s)"
  by (auto simp: syncProviders_def Let_def split_def)

lemma geocodeAnswers_length [simp]:
  "length (geocodeAnswers nominatim now ps s) = length ps"
  by (induction ps arbitrary: s) (simp_all add: split_def Let_def)

lemma geocodeLoop_answers:
  "fst (geocodeLoop nominatim now ps s)
   = map (\<lambda>(p, c). p\<lparr>coordinates := c, last_updated := Some now\<rparr>)
       (zip ps (geocodeAnswers nominatim now ps s))"
  by (induction ps arbitrary: s) (simp_all add: split_def Let_def)

lemma geocodeProviders_answers:
  "fst (geocodeProviders nominatim now ps s)
   = filter (\<lambda>p. coordinates p \<noteq> None) ps
     @ map (\<lambda>(p, c). p\<lparr>coordinates := c, last_updated := Some now\<rparr>)
         (zip (filter (\<lambda>p. coordinates p = None) ps)
            (geocodeAnswers nominatim now (filter (\<lambda>p. coordinates p = None) ps)
               (initialize s)))"
proof (cases "filter (\<lambda>p. coordinates p = None) ps = []")
  case True
  show ?thesis
    unfolding geocodeProviders_output True by simp
next
  case False
  show ?thesis
    unfolding geocodeProviders_output using False by (simp only: if_False geocodeLoop_answers)
qed

lemma needs_apiRequests [simp]:
  "needsGeocodingUpdate (s\<lparr>apiRequests := n\<rparr>) api = needsGeocodingUpdate s api"
  "mergeWithCachedCoordinates now (s\<lparr>apiRequests := n\<rparr>) api = mergeWithCachedCoordinates now s api"
  by (simp_all add: needsGeocodingUpdate_def mergeWithCachedCoordinates_def)

lemma fetch_data:
  "data (fst (fetchProvidersFromAPI nominatim now (DirectoryData api) s))
   = (if needsGeocodingUpdate s api then
        fst (geocodeProviders nominatim now (mergeWithCachedCoordinates now s api)
               (s\<lparr>apiRequests := Suc (apiRequests s)\<rparr>))
      else mergeWithCachedCoordinates now s api)"
  by (simp add: fetchProvidersFromAPI_def Let_def split_def)

lemma sync_data_fetched:
  assumes "api \<noteq> []"
    and "forceRefresh \<or> isCacheExpired now 24 s \<or> loadProvidersWithCoordinates s = []"
  shows "data (fst (syncProviders nominatim now (DirectoryData api) forceRefresh s))
         = data (fst (fetchProvidersFromAPI nominatim now (DirectoryData api) s))"
proof -
  let ?fetch = "fst (fetchProvidersFromAPI nominatim now (DirectoryData api) s)"
  have "mset (map ApiProvider.truncate (data ?fetch)) = mset api"
    by (simp only: fetch_data_perm)
  then have "length (data ?fetch) = length api"
    by (metis length_map size_mset)
  with assms(1) have "data ?fetch \<noteq> []" by auto
  with assms(2) fetch_data_success [of nominatim now api s] show ?thesis
    by (simp add: sync_fetched)
qed

lemma sync_data_answers:
  assumes "api \<noteq> []"
    and "forceRefresh \<or> isCacheExpired now 24 s \<or> loadProvidersWithCoordinates s = []"
    and "needsGeocodingUpdate s api"
  shows "data (fst (syncProviders nominatim now (DirectoryData api) forceRefresh s))
         = filter (\<lambda>p. coordinates p \<noteq> None) (mergeWithCachedCoordinates now s api)
           @ map (\<lambda>(p, c). p\<lparr>coordinates := c, last_updated := Some now\<rparr>)
               (zip (filter (\<lambda>p. coordinates p = None) (mergeWithCachedCoordinates now s api))
                  (geocodeAnswers nominatim now
                     (filter (\<lambda>p. coordinates p = None) (mergeWithCachedCoordinates now s api))
                     (initialize (s\<lparr>apiRequests := Suc (apiRequests s)\<rparr>))))"
  using assms(3)
  by (simp only: sync_data_fetched [OF assms(1,2)] fetch_data if_True geocodeProviders_answers)

lemma pushed_nth:
  assumes "i < length needs" "length answers = length needs"
  shows "coordinates ((already @ map (\<lambda>(p, c). p\<lparr>coordinates := c, last_updated := Some now\<rparr>)
               (zip needs answers)) ! (length already + i)) = answers ! i"
    and "ApiProvider.truncate ((already @ map (\<lambda>(p, c). p\<lparr>coordinates := c, last_updated := Some now\<rparr>)
               (zip needs answers)) ! (length already + i)) = ApiProvider.truncate (needs ! i)"
  using assms by (simp_all add: nth_append)

text \<open>
  Claim C1. \<^verbatim>\<open>syncProviders\<close> reports failure exactly when the directory fetch fails
  and neither stored snapshot holds a provider. When the fetch fails and a snapshot
  holds providers, it reports success with that snapshot, marked as served from the
  cache because the remote service was unreachable. When the fetch returns N providers,
  N at least 1, it reports success with N records, the fetched directory records with
  the same multiplicities, whatever the geocoding endpoint answers. When a geocoding
  pass is needed, the records returned are the merged records that already carry a
  coordinate followed by one record for each merged record that carries none, and that
  record carries exactly the answer of its own lookup: no coordinate when the lookup
  failed. When no pass is needed, the merged records are returned. In the geocoding
  loop, a provider whose lookup gives no coordinate is pushed with no coordinate and the
  loop goes on with the rest.
\<close>

theorem sync_failure_semantics:
  "(\<not> success (fst (syncProviders nominatim now reply forceRefresh s)) \<longleftrightarrow>
      (\<exists>msg. reply = DirectoryError msg) \<and> loadFromCache s = [])
   \<and> (reply = DirectoryError msg \<and> loadFromCache s \<noteq> [] \<longrightarrow>
        success (fst (syncProviders nominatim now reply forceRefresh s))
        \<and> data (fst (syncProviders nominatim now reply forceRefresh s)) = loadFromCache s)
   \<and> (reply = DirectoryError msg \<and> loadProvidersWithCoordinates s \<noteq> []
       \<and> (forceRefresh \<or> isCacheExpired now 24 s) \<longrightarrow>
        fst (syncProviders nominatim now reply forceRefresh s)
        = \<lparr>success = True, data = loadProvidersWithCoordinates s,
           message = Some ApiUnreachableFullCache, error = None\<rparr>)
   \<and> (reply = DirectoryData api \<and> api \<noteq> []
       \<and> (forceRefresh \<or> isCacheExpired now 24 s \<or> loadProvidersWithCoordinates s = []) \<longrightarrow>
        success (fst (syncProviders nominatim now reply forceRefresh s))
        \<and> length (data (fst (syncProviders nominatim now reply forceRefresh s))) = length api
        \<and> mset (map ApiProvider.truncate
                   (data (fst (syncProviders nominatim now reply forceRefresh s))))
            = mset api)
   \<and> (geocodeAddress nominatim now (address p)
          (if city p = [] then ''COTONOU'' else city p) defaultCountry s = (None, s1) \<longrightarrow>
        fst (geocodeLoop nominatim now (p # rest) s)
        = p\<lparr>coordinates := None, last_updated := Some now\<rparr>
          # fst (geocodeLoop nominatim now rest s1))
   \<and> (reply = DirectoryData api \<and> api \<noteq> []
       \<and> (forceRefresh \<or> isCacheExpired now 24 s \<or> loadProvidersWithCoordinates s = [])
       \<and> needsGeocodingUpdate s api \<longrightarrow>
        (let merged = mergeWithCachedCoordinates now s api;
             already = filter (\<lambda>p. coordinates p \<noteq> None) merged;
             needs = filter (\<lambda>p. coordinates p = None) merged;
             answers = geocodeAnswers nominatim now needs
                         (initialize (s\<lparr>apiRequests := Suc (apiRequests s)\<rparr>));
             returned = data (fst (syncProviders nominatim now reply forceRefresh s))
         in returned
              = already
                @ map (\<lambda>(p, c). p\<lparr>coordinates := c, last_updated := Some now\<rparr>) (zip needs answers)
            \<and> length answers = length needs
            \<and> (\<forall>i < length needs.
                  coordinates (returned ! (length already + i)) = answers ! i
                  \<and> ApiProvider.truncate (returned ! (length already + i))
                      = ApiProvider.truncate (needs ! i))
            \<and> (\<forall>i < length needs.
                  answers ! i = None \<longrightarrow> coordinates (returned ! (length already + i)) = None)))
   \<and> (reply = DirectoryData api \<and> api \<noteq> []
       \<and> (forceRefresh \<or> isCacheExpired now 24 s \<or> loadProvidersWithCoordinates s = [])
       \<and> \<not> needsGeocodingUpdate s api \<longrightarrow>
        data (fst (syncProviders nominatim now reply forceRefresh s))
        = mergeWithCachedCoordinates now s api)"
proof -
  let ?sync = "fst (syncProviders nominatim now reply forceRefresh s)"
  have failure: "\<not> success ?sync \<longleftrightarrow> (\<exists>msg. reply = DirectoryError msg) \<and> loadFromCache s = []"
  proof (cases reply)
    case (DirectoryError m)
    then show ?thesis
      by (auto simp: syncProviders_def fetch_error Let_def loadFromCache_def)
  next
    case (DirectoryData api')
    then show ?thesis
      using fetch_data_success [of nominatim now api' s]
      by (auto simp: syncProviders_def Let_def split_def)
  qed
  have degraded: "success ?sync \<and> data ?sync = loadFromCache s"
    if "reply = DirectoryError msg" "loadFromCache s \<noteq> []"
    using that by (auto simp: syncProviders_def fetch_error Let_def loadFromCache_def)
  have marked: "?sync = \<lparr>success = True, data = loadProvidersWithCoordinates s,
           message = Some ApiUnreachableFullCache, error = None\<rparr>"
    if "reply = DirectoryError msg" "loadProvidersWithCoordinates s \<noteq> []"
      "forceRefresh \<or> isCacheExpired now 24 s"
    using that by (auto simp: syncProviders_def fetch_error Let_def)
  have batch: "success ?sync \<and> length (data ?sync) = length api
               \<and> mset (map ApiProvider.truncate (data ?sync)) = mset api"
    if r: "reply = DirectoryData api" and ne: "api \<noteq> []"
      and att: "forceRefresh \<or> isCacheExpired now 24 s \<or> loadProvidersWithCoordinates s = []"
  proof -
    let ?fetch = "fst (fetchProvidersFromAPI nominatim now reply s)"
    have perm: "mset (map ApiProvider.truncate (data ?fetch)) = mset api"
      using r by (simp only: fetch_data_perm)
    then have len: "length (data ?fetch) = length api"
      by (metis length_map size_mset)
    with ne have "data ?fetch \<noteq> []" by auto
    moreover have "success ?fetch"
      using r by (simp only: fetch_data_success)
    ultimately have "?sync = ?fetch"
      using att by (simp add: sync_fetched)
    with perm len \<open>success ?fetch\<close> show ?thesis by simp
  qed
  have isolated: "fst (geocodeLoop nominatim now (p # rest) s)
        = p\<lparr>coordinates := None, last_updated := Some now\<rparr>
          # fst (geocodeLoop nominatim now rest s1)"
    if "geocodeAddress nominatim now (address p)
          (if city p = [] then ''COTONOU'' else city p) defaultCountry s = (None, s1)"
    using that by (simp add: split_def Let_def)
  have answered:
    "let merged = mergeWithCachedCoordinates now s api;
         already = filter (\<lambda>p. coordinates p \<noteq> None) merged;
         needs = filter (\<lambda>p. coordinates p = None) merged;
         answers = geocodeAnswers nominatim now needs
                     (initialize (s\<lparr>apiRequests := Suc (apiRequests s)\<rparr>));
         returned = data ?sync
     in returned
          = already
            @ map (\<lambda>(p, c). p\<lparr>coordinates := c, last_updated := Some now\<rparr>) (zip needs answers)
        \<and> length answers = length needs
        \<and> (\<forall>i < length needs.
              coordinates (returned ! (length already + i)) = answers ! i
              \<and> ApiProvider.truncate (returned ! (length already + i))
                  = ApiProvider.truncate (needs ! i))
        \<and> (\<forall>i < length needs.
              answers ! i = None \<longrightarrow> coordinates (returned ! (length already + i)) = None)"
    if r: "reply = DirectoryData api" and ne: "api \<noteq> []"
      and att: "forceRefresh \<or> isCacheExpired now 24 s \<or> loadProvidersWithCoordinates s = []"
      and needed: "needsGeocodingUpdate s api"
  proof -
    let ?merged = "mergeWithCachedCoordinates now s api"
    let ?already = "filter (\<lambda>p. coordinates p \<noteq> None) ?merged"
    let ?needs = "filter (\<lambda>p. coordinates p = None) ?merged"
    let ?answers = "geocodeAnswers nominatim now ?needs
                     (initialize (s\<lparr>apiRequests := Suc (apiRequests s)\<rparr>))"
    let ?pushed = "map (\<lambda>(p, c). p\<lparr>coordinates := c, last_updated := Some now\<rparr>)
                     (zip ?needs ?answers)"
    have eq: "data ?sync = ?already @ ?pushed"
      unfolding r by (rule sync_data_answers [OF ne att needed])
    have len: "length ?answers = length ?needs"
      by (rule geocodeAnswers_length)
    have each: "coordinates ((?already @ ?pushed) ! (length ?already + i)) = ?answers ! i"
      "ApiProvider.truncate ((?already @ ?pushed) ! (length ?already + i))
       = ApiProvider.truncate (?needs ! i)" if "i < length ?needs" for i
      using pushed_nth [OF that len] by blast+
    show ?thesis
      unfolding Let_def eq using len each by (intro conjI allI impI) simp_all
  qed
  have reused: "data ?sync = mergeWithCachedCoordinates now s api"
    if r: "reply = DirectoryData api" and ne: "api \<noteq> []"
      and att: "forceRefresh \<or> isCacheExpired now 24 s \<or> loadProvidersWithCoordinates s = []"
      and "\<not> needsGeocodingUpdate s api"
    using that(4) unfolding r by (simp only: sync_data_fetched [OF ne att] fetch_data if_False)
  from failure degraded marked batch isolated answered reused show ?thesis by blast
qed

theorem sync_failure_semantics_witness:
  "fst (syncProviders secondRequestFails 0 (DirectoryData threeProviders) False emptyState)
     = \<lparr>success = True,
        data = [withCoordinates (sampleProvider 1 ''Rue 1'' ''Cotonou'')
                  (Some (answeredCoordinates 0)) 0,
                withCoordinates (sampleProvider 2 ''Rue 2'' ''Atlantis'') None 0,
                withCoordinates (sampleProvider 3 ''Rue 3'' ''Parakou'')
                  (Some (answeredCoordinates 0)) 0],
        message = Some (Processed 3), error = None\<rparr>
   \<and> threeProviders \<noteq> []
   \<and> loadProvidersWithCoordinates emptyState = []
   \<and> needsGeocodingUpdate emptyState threeProviders
   \<and> filter (\<lambda>p. coordinates p \<noteq> None) (mergeWithCachedCoordinates 0 emptyState threeProviders)
       = []
   \<and> geocodeAnswers secondRequestFails 0
        (filter (\<lambda>p. coordinates p = None) (mergeWithCachedCoordinates 0 emptyState threeProviders))
        (initialize (emptyState\<lparr>apiRequests := Suc (apiRequests emptyState)\<rparr>))
       = [Some (answeredCoordinates 0), None, Some (answeredCoordinates 0)]
   \<and> coordinates
        (data (fst (syncProviders secondRequestFails 0 (DirectoryData threeProviders) False
                      emptyState)) ! 1) = None
   \<and> loadFromCache emptyState = []
   \<and> fst (syncProviders nominatimDown 0 (DirectoryError ''HTTP 500'') False emptyState)
       = \<lparr>success = False, data = [], message = None, error = Some ''HTTP 500''\<rparr>
   \<and> loadProvidersWithCoordinates syncedState \<noteq> []
   \<and> fst (syncProviders nominatimDown 1000 (DirectoryError ''HTTP 500'') True syncedState)
       = \<lparr>success = True, data = loadProvidersWithCoordinates syncedState,
          message = Some ApiUnreachableFullCache, error = None\<rparr>
   \<and> fst (geocodeLoop nominatimDown 0
             [withCoordinates (sampleProvider 2 ''Rue 2'' ''Atlantis'') None 0,
              withCoordinates (sampleProvider 1 ''Rue 1'' ''Cotonou'') None 0]
             emptyState)
       = [withCoordinates (sampleProvider 2 ''Rue 2'' ''Atlantis'') None 0,
          withCoordinates (sampleProvider 1 ''Rue 1'' ''Cotonou'') (Some (fallbackCotonou 0)) 0]"
proof -
  let ?merged = "mergeWithCachedCoordinates 0 emptyState threeProviders"
  let ?already = "filter (\<lambda>p. coordinates p \<noteq> None) ?merged"
  let ?needs = "filter (\<lambda>p. coordinates p = None) ?merged"
  let ?answers = "geocodeAnswers secondRequestFails 0 ?needs
                    (initialize (emptyState\<lparr>apiRequests := Suc (apiRequests emptyState)\<rparr>))"
  let ?returned = "data (fst (syncProviders secondRequestFails 0 (DirectoryData threeProviders)
                                False emptyState))"
  note semantics = sync_failure_semantics [of secondRequestFails 0 "DirectoryData threeProviders"
      False emptyState "''HTTP 500''" threeProviders]
  have filled: "threeProviders \<noteq> []"
    by (simp add: threeProviders_def)
  have no_snapshot: "loadProvidersWithCoordinates emptyState = []"
    by (simp add: loadProvidersWithCoordinates_def emptyState_def)
  have needed: "needsGeocodingUpdate emptyState threeProviders"
    by (simp add: needsGeocodingUpdate_def no_snapshot)
  have already: "?already = []"
    by (simp add: eval_defs threeProviders_def)
  have three: "length ?needs = 3"
    by (simp add: eval_defs threeProviders_def)
  have answers: "?answers = [Some (answeredCoordinates 0), None, Some (answeredCoordinates 0)]"
    by (simp add: sync_defs eval_defs)
  from semantics filled no_snapshot needed
  have each: "\<forall>i < length ?needs. ?answers ! i = None
          \<longrightarrow> coordinates (?returned ! (length ?already + i)) = None"
    unfolding Let_def by blast
  have "1 < length ?needs"
    using three by simp
  with each have step: "?answers ! 1 = None
          \<longrightarrow> coordinates (?returned ! (length ?already + 1)) = None"
    by blast
  have "?answers ! 1 = None"
    unfolding answers by simp
  with step have "coordinates (?returned ! (length ?already + 1)) = None"
    by blast
  then have failed_one: "coordinates (?returned ! 1) = None"
    unfolding already by simp
  have snapshot: "loadProvidersWithCoordinates syncedState \<noteq> []"
    by (simp add: syncedState_eval loadProvidersWithCoordinates_def)
  have degraded: "fst (syncProviders nominatimDown 1000 (DirectoryError ''HTTP 500'') True syncedState)
       = \<lparr>success = True, data = loadProvidersWithCoordinates syncedState,
          message = Some ApiUnreachableFullCache, error = None\<rparr>"
    using snapshot
      sync_failure_semantics [of nominatimDown 1000 "DirectoryError ''HTTP 500''" True syncedState
        "''HTTP 500''"]
    by simp
  have batch: "fst (syncProviders secondRequestFails 0 (DirectoryData threeProviders) False emptyState)
     = \<lparr>success = True,
        data = [withCoordinates (sampleProvider 1 ''Rue 1'' ''Cotonou'')
                  (Some (answeredCoordinates 0)) 0,
                withCoordinates (sampleProvider 2 ''Rue 2'' ''Atlantis'') None 0,
                withCoordinates (sampleProvider 3 ''Rue 3'' ''Parakou'')
                  (Some (answeredCoordinates 0)) 0],
        message = Some (Processed 3), error = None\<rparr>"
    by (simp add: sync_defs eval_defs)
  have no_cache: "loadFromCache emptyState = []"
    by (simp add: loadFromCache_def loadProvidersWithCoordinates_def emptyState_def)
  have failed: "fst (syncProviders nominatimDown 0 (DirectoryError ''HTTP 500'') False emptyState)
       = \<lparr>success = False, data = [], message = None, error = Some ''HTTP 500''\<rparr>"
    by (simp add: sync_defs eval_defs)
  have loop: "fst (geocodeLoop nominatimDown 0
             [withCoordinates (sampleProvider 2 ''Rue 2'' ''Atlantis'') None 0,
              withCoordinates (sampleProvider 1 ''Rue 1'' ''Cotonou'') None 0]
             emptyState)
       = [withCoordinates (sampleProvider 2 ''Rue 2'' ''Atlantis'') None 0,
          withCoordinates (sampleProvider 1 ''Rue 1'' ''Cotonou'') (Some (fallbackCotonou 0)) 0]"
    by (simp add: eval_defs nominatimDown_def fallbackCotonou_def)
  from batch filled no_snapshot needed already answers failed_one no_cache failed snapshot
    degraded loop
  show ?thesis
    by blast
qed

end
